theory Spec2Isabelle
  imports Complex_Main "HOL-Library.AList"
begin

section \<open>JavaScript values\<close>

text \<open>
  The clients are JavaScript and TypeScript. A value handled by them is one of the
  following; \<open>JNaN\<close> is the number NaN, and \<open>JObj\<close> lists the own properties of an
  object in the order in which JavaScript enumerates them (first binding of a key wins).
  \<open>JSON.parse\<close> yields neither \<open>JUndef\<close> nor \<open>JNaN\<close>.
\<close>

datatype jsval =
    JUndef
  | JNull
  | JBool bool
  | JNum real
  | JNaN
  | JStr string
  | JArr "jsval list"
  | JObj "(string \<times> jsval) list"

section \<open>Outlook bands (web timeline tab, iOS results screen)\<close>

text \<open>\<open>getOutlookColor\<close> of \<open>renderTimelineTab\<close> in EnhancedTransitAnalysis.js.\<close>

definition getOutlookColor :: "real \<Rightarrow> string" where
  "getOutlookColor score =
     (if score \<ge> 70 then ''#4ade80''
      else if score \<ge> 50 then ''#fbbf24''
      else if score \<ge> 30 then ''#fb923c''
      else ''#f87171'')"

text \<open>\<open>getOutlookLabel\<close> of \<open>renderTimelineTab\<close> in EnhancedTransitAnalysis.js.\<close>

definition getOutlookLabel :: "real \<Rightarrow> string" where
  "getOutlookLabel score =
     (if score \<ge> 70 then ''Favorable''
      else if score \<ge> 50 then ''Above Average''
      else if score \<ge> 30 then ''Below Average''
      else ''Challenging'')"

text \<open>\<open>getStrengthColor\<close> of the iOS ResultsScreen, applied there to
  \<open>month.normalized_score\<close> and to a house percentage.\<close>

definition getStrengthColor :: "real \<Rightarrow> string" where
  "getStrengthColor pct =
     (if pct \<ge> 70 then ''#4ade80''
      else if pct \<ge> 50 then ''#fbbf24''
      else if pct \<ge> 30 then ''#fb923c''
      else ''#f87171'')"

section \<open>JavaScript primitives used by the clients\<close>

text \<open>\<open>ToBoolean\<close>: what \<open>if (v)\<close>, \<open>!v\<close>, \<open>a && b\<close> and \<open>a || b\<close> test.\<close>

fun truthy :: "jsval \<Rightarrow> bool" where
  "truthy JUndef = False"
| "truthy JNull = False"
| "truthy (JBool b) = b"
| "truthy (JNum n) = (n \<noteq> 0)"
| "truthy JNaN = False"
| "truthy (JStr s) = (s \<noteq> [])"
| "truthy (JArr xs) = True"
| "truthy (JObj kvs) = True"

text \<open>\<open>a || b\<close> on values.\<close>

definition js_or :: "jsval \<Rightarrow> jsval \<Rightarrow> jsval" where
  "js_or a b = (if truthy a then a else b)"

text \<open>
  What \<open>JSON.stringify\<close> followed by the server's JSON parser makes of a value: NaN
  becomes null, a property whose value is undefined is dropped, an undefined array
  element becomes null.
\<close>

fun JSON_stringify :: "jsval \<Rightarrow> jsval" where
  "JSON_stringify JNaN = JNull"
| "JSON_stringify JUndef = JNull"
| "JSON_stringify (JArr xs) = JArr (map JSON_stringify xs)"
| "JSON_stringify (JObj kvs) =
     JObj (map (\<lambda>kv. (fst kv, JSON_stringify (snd kv))) (filter (\<lambda>kv. snd kv \<noteq> JUndef) kvs))"
| "JSON_stringify v = v"

text \<open>
  \<open>parseInt(string)\<close> without a radix, by the steps of ECMAScript: leading white space
  is skipped, a sign is read, a \<open>0x\<close> prefix selects radix 16, the longest prefix of
  digits is converted, and no digit at all gives NaN (\<open>None\<close>). Characters are the
  256 of \<open>char\<close>; the result is the exact integer (the comparisons below cannot tell it
  from its rounding to a double).
\<close>

definition StrWhiteSpaceChar :: "char \<Rightarrow> bool" where
  "StrWhiteSpaceChar c = ((of_char c :: nat) \<in> {9, 10, 11, 12, 13, 32, 160})"

definition digitValue :: "char \<Rightarrow> nat option" where
  "digitValue c =
     (let n = (of_char c :: nat) in
      if 48 \<le> n \<and> n \<le> 57 then Some (n - 48)
      else if 97 \<le> n \<and> n \<le> 122 then Some (n - 87)
      else if 65 \<le> n \<and> n \<le> 90 then Some (n - 55)
      else None)"

definition isRadixDigit :: "nat \<Rightarrow> char \<Rightarrow> bool" where
  "isRadixDigit R c = (case digitValue c of None \<Rightarrow> False | Some d \<Rightarrow> d < R)"

definition mathInt :: "nat \<Rightarrow> string \<Rightarrow> nat" where
  "mathInt R Z =
     foldl (\<lambda>acc c. acc * R + (case digitValue c of None \<Rightarrow> 0 | Some d \<Rightarrow> d)) 0 Z"

definition parseInt :: "string \<Rightarrow> int option" where
  "parseInt string =
     (let S = dropWhile StrWhiteSpaceChar string;
          sign = (if S \<noteq> [] \<and> hd S = CHR ''-'' then - 1 else 1);
          S1 = (if S \<noteq> [] \<and> (hd S = CHR ''+'' \<or> hd S = CHR ''-'') then tl S else S);
          hex = (take 2 S1 = ''0x'' \<or> take 2 S1 = ''0X'');
          R = (if hex then 16 else 10);
          S2 = (if hex then drop 2 S1 else S1);
          Z = takeWhile (isRadixDigit R) S2
      in if Z = [] then None else Some (sign * int (mathInt R Z)))"

text \<open>The number a \<open>parseInt\<close> result is, as a value.\<close>

definition js_number :: "int option \<Rightarrow> jsval" where
  "js_number r = (case r of None \<Rightarrow> JNaN | Some i \<Rightarrow> JNum (of_int i))"

text \<open>\<open>a < b\<close> and \<open>a > b\<close> with a possibly-NaN left operand: false on NaN.\<close>

definition js_lt :: "int option \<Rightarrow> int \<Rightarrow> bool" where
  "js_lt a b = (case a of None \<Rightarrow> False | Some x \<Rightarrow> x < b)"

definition js_gt :: "int option \<Rightarrow> int \<Rightarrow> bool" where
  "js_gt a b = (case a of None \<Rightarrow> False | Some x \<Rightarrow> x > b)"

section \<open>The iOS HomeScreen (HomeScreen.tsx)\<close>

record City =
  city_name :: string
  city_lat :: string
  city_lon :: string

text \<open>The screen's state variables that \<open>validateInputs\<close> and \<open>handleSubmit\<close> read
  or write.\<close>

record home_state =
  year :: string
  month :: string
  day :: string
  hour :: string
  minute :: string
  selectedCity :: City
  loading :: bool

text \<open>\<open>Alert.alert(title, message)\<close>.\<close>

datatype alert = Alert string string

text \<open>\<open>validateInputs\<close>: the result and the alert it shows.\<close>

definition validateInputs :: "home_state \<Rightarrow> bool \<times> alert option" where
  "validateInputs st =
     (let y = parseInt (year st);
          m = parseInt (month st);
          d = parseInt (day st);
          h = parseInt (hour st);
          min = parseInt (minute st)
      in if year st = [] \<or> month st = [] \<or> day st = [] \<or> hour st = [] \<or> minute st = []
           then (False, Some (Alert ''Error'' ''Please fill in all birth details''))
         else if js_lt y 1900 \<or> js_gt y 2100
           then (False, Some (Alert ''Error'' ''Please enter a valid year (1900-2100)''))
         else if js_lt m 1 \<or> js_gt m 12
           then (False, Some (Alert ''Error'' ''Month must be between 1 and 12''))
         else if js_lt d 1 \<or> js_gt d 31
           then (False, Some (Alert ''Error'' ''Day must be between 1 and 31''))
         else if js_lt h 0 \<or> js_gt h 23
           then (False, Some (Alert ''Error'' ''Hour must be between 0 and 23''))
         else if js_lt min 0 \<or> js_gt min 59
           then (False, Some (Alert ''Error'' ''Minute must be between 0 and 59''))
         else (True, None))"

text \<open>A request is the path posted to and the body as the server reads it.\<close>

type_synonym request = "string \<times> jsval"

text \<open>The \<open>birthData\<close> object literal of \<open>handleSubmit\<close>; \<open>parseFloat\<close> is a parameter.\<close>

definition home_birthData :: "(string \<Rightarrow> jsval) \<Rightarrow> home_state \<Rightarrow> jsval" where
  "home_birthData parseFloat st =
     JObj [(''year'', js_number (parseInt (year st))),
           (''month'', js_number (parseInt (month st))),
           (''day'', js_number (parseInt (day st))),
           (''hour'', js_number (parseInt (hour st))),
           (''minute'', js_number (parseInt (minute st))),
           (''second'', JNum 0),
           (''lat'', parseFloat (city_lat (selectedCity st))),
           (''lon'', parseFloat (city_lon (selectedCity st))),
           (''ayanamsa'', JStr ''lahiri'')]"

text \<open>The four calls of api/kundali.ts that \<open>handleSubmit\<close> starts inside
  \<open>Promise.all\<close>, in the order of the array.\<close>

definition home_calls :: "jsval \<Rightarrow> request list" where
  "home_calls birthData =
     [(''/chart/calculate'', JSON_stringify birthData),
      (''/dasha/calculate'', JSON_stringify birthData),
      (''/yoga/detect'', JSON_stringify birthData),
      (''/interpretation/summary'', JSON_stringify birthData)]"

text \<open>What \<open>handleSubmit\<close> leaves behind: the state, the requests started, the alerts
  shown, and the parameters of \<open>navigation.navigate('Results', ...)\<close> if it was called.\<close>

record submit_effects =
  state_after :: home_state
  requests :: "request list"
  alerts :: "alert list"
  navigated :: "(jsval \<times> jsval \<times> jsval \<times> jsval) option"

text \<open>
  \<open>handleSubmit\<close>. The parameter \<open>allSettled\<close> is what awaiting \<open>Promise.all\<close> of the
  started requests gives: the message of the rejection, or the four response bodies.
\<close>

definition handleSubmit ::
  "(string \<Rightarrow> jsval) \<Rightarrow> (request list \<Rightarrow> string + jsval \<times> jsval \<times> jsval \<times> jsval)
     \<Rightarrow> home_state \<Rightarrow> submit_effects" where
  "handleSubmit parseFloat allSettled st =
     (case validateInputs st of
        (False, a) \<Rightarrow>
          \<lparr>state_after = st, requests = [],
           alerts = (case a of None \<Rightarrow> [] | Some x \<Rightarrow> [x]), navigated = None\<rparr>
      | (True, a) \<Rightarrow>
          (let birthData = home_birthData parseFloat st;
               calls = home_calls birthData
           in case allSettled calls of
                Inr params \<Rightarrow>
                  \<lparr>state_after = st\<lparr>loading := False\<rparr>, requests = calls,
                   alerts = [], navigated = Some params\<rparr>
              | Inl message \<Rightarrow>
                  \<lparr>state_after = st\<lparr>loading := False\<rparr>, requests = calls,
                   alerts = [Alert ''Connection Error''
                     (''Unable to connect to the server. '' @ message @ [CHR 0x0A, CHR 0x0A]
                       @ ''Please ensure the backend is running on port 8002.'')],
                   navigated = None\<rparr>))"

section \<open>Reading properties\<close>

text \<open>
  \<open>own_prop v k\<close> is \<open>v.k\<close> for a \<open>v\<close> that is neither null nor undefined, where \<open>k\<close>
  is one of the field names the clients read (none of them is \<open>length\<close>, an index or
  an inherited method, so on an array or a primitive the result is undefined).
  \<open>get_prop\<close> is the same read with the TypeError that null and undefined raise; its
  message is the engine's and is fixed here to V8's wording.
\<close>

fun own_prop :: "jsval \<Rightarrow> string \<Rightarrow> jsval" where
  "own_prop (JObj kvs) k = (case map_of kvs k of None \<Rightarrow> JUndef | Some v \<Rightarrow> v)"
| "own_prop v k = JUndef"

definition typeError_message :: "string \<Rightarrow> string \<Rightarrow> string" where
  "typeError_message what k = ''Cannot read properties of '' @ what @ '' (reading '' @ k @ '')''"

definition get_prop :: "jsval \<Rightarrow> string \<Rightarrow> string + jsval" where
  "get_prop v k =
     (case v of
        JUndef \<Rightarrow> Inl (typeError_message ''undefined'' k)
      | JNull \<Rightarrow> Inl (typeError_message ''null'' k)
      | _ \<Rightarrow> Inr (own_prop v k))"

text \<open>The own properties an object spread \<open>{...v}\<close> copies, and the object literal
  \<open>{...v, k1: v1, ...}\<close>: a key already present keeps its place and takes the new value,
  a new key is appended.\<close>

fun own_props :: "jsval \<Rightarrow> (string \<times> jsval) list" where
  "own_props (JObj kvs) = AList.clearjunk kvs"
| "own_props v = []"

definition object_spread :: "jsval \<Rightarrow> (string \<times> jsval) list \<Rightarrow> jsval" where
  "object_spread v extra = JObj (foldl (\<lambda>kvs kv. AList.update (fst kv) (snd kv) kvs) (own_props v) extra)"

section \<open>The web App (App.js)\<close>

text \<open>The form object that \<open>InputForm\<close> passes to \<open>onSubmit\<close>: the values of its inputs.\<close>

record web_form =
  form_year :: string
  form_month :: string
  form_day :: string
  form_hour :: string
  form_minute :: string
  form_lat :: string
  form_lon :: string
  form_place :: string

record app_state =
  chartData :: jsval
  dashaData :: jsval
  yogaData :: jsval
  interpretation_data :: jsval
  houseData :: jsval
  app_loading :: bool
  app_error :: jsval

text \<open>What \<open>await fetch(...)\<close> gives: a rejection with a message, or a response with its
  \<open>ok\<close> flag and what \<open>await response.json()\<close> gives (a rejection or the parsed body).\<close>

datatype fetch_result = NetworkError string | HttpResponse bool "string + jsval"

text \<open>The \<open>birthData\<close> object literal of \<open>handleFormSubmit\<close>.\<close>

definition app_birthData :: "(string \<Rightarrow> jsval) \<Rightarrow> web_form \<Rightarrow> jsval" where
  "app_birthData parseFloat form =
     JObj [(''year'', js_number (parseInt (form_year form))),
           (''month'', js_number (parseInt (form_month form))),
           (''day'', js_number (parseInt (form_day form))),
           (''hour'', js_number (parseInt (form_hour form))),
           (''minute'', js_number (parseInt (form_minute form))),
           (''second'', JNum 0),
           (''lat'', parseFloat (form_lat form)),
           (''lon'', parseFloat (form_lon form)),
           (''ayanamsa'', JStr ''lahiri'')]"

text \<open>A point of the \<open>try\<close> block: the state and the requests sent so far, and the
  message of the exception thrown, if any. \<open>and_then\<close> runs the next statement unless
  one was thrown.\<close>

type_synonym 'a attempt = "'a \<times> string option"

definition and_then :: "'a attempt \<Rightarrow> ('a \<Rightarrow> 'a attempt) \<Rightarrow> 'a attempt" where
  "and_then r f = (case r of (s, None) \<Rightarrow> f s | (s, Some e) \<Rightarrow> (s, Some e))"

text \<open>
  One fetch of \<open>handleFormSubmit\<close>: post the body, then
  \<open>if (!res.ok) throw new Error('Failed to calculate chart')\<close> for the chart
  (\<open>required\<close>), \<open>if (res.ok) { setData(await res.json()) }\<close> for the other four.
\<close>

definition fetch_json ::
  "(request \<Rightarrow> fetch_result) \<Rightarrow> string \<Rightarrow> jsval \<Rightarrow> bool \<Rightarrow> (jsval \<Rightarrow> app_state \<Rightarrow> app_state)
     \<Rightarrow> app_state \<times> request list \<Rightarrow> (app_state \<times> request list) attempt" where
  "fetch_json fetch url body required setData p =
     (case p of (st, sent) \<Rightarrow>
        (case fetch (url, body) of
           NetworkError e \<Rightarrow> ((st, sent @ [(url, body)]), Some e)
         | HttpResponse ok parsed \<Rightarrow>
             if \<not> ok then
               ((st, sent @ [(url, body)]),
                if required then Some ''Failed to calculate chart'' else None)
             else
               (case parsed of
                  Inl e \<Rightarrow> ((st, sent @ [(url, body)]), Some e)
                | Inr v \<Rightarrow> ((setData v st, sent @ [(url, body)]), None))))"

text \<open>\<open>handleFormSubmit\<close>: the state it leaves and the requests it sent, in order.\<close>

definition handleFormSubmit ::
  "(string \<Rightarrow> jsval) \<Rightarrow> (request \<Rightarrow> fetch_result) \<Rightarrow> web_form \<Rightarrow> app_state
     \<Rightarrow> app_state \<times> request list" where
  "handleFormSubmit parseFloat fetch form st =
     (let st1 = st\<lparr>app_loading := True, app_error := JNull\<rparr>;
          body = JSON_stringify (app_birthData parseFloat form);
          r = and_then (and_then (and_then (and_then
                (fetch_json fetch ''/api/v1/chart/calculate'' body True
                   (\<lambda>v s. s\<lparr>chartData := v\<rparr>) (st1, []))
                (fetch_json fetch ''/api/v1/dasha/calculate'' body False
                   (\<lambda>v s. s\<lparr>dashaData := v\<rparr>)))
                (fetch_json fetch ''/api/v1/yoga/detect'' body False
                   (\<lambda>v s. s\<lparr>yogaData := v\<rparr>)))
                (fetch_json fetch ''/api/v1/interpretation/summary'' body False
                   (\<lambda>v s. s\<lparr>interpretation_data := v\<rparr>)))
                (fetch_json fetch ''/api/v1/interpretation/houses'' body False
                   (\<lambda>v s. s\<lparr>houseData := v\<rparr>))
      in case r of
           ((st2, sent), thrown) \<Rightarrow>
             ((case thrown of None \<Rightarrow> st2 | Some e \<Rightarrow> st2\<lparr>app_error := JStr e\<rparr>)
                \<lparr>app_loading := False\<rparr>, sent))"

section \<open>The iOS ResultsScreen (ResultsScreen.tsx) and api/kundali.ts\<close>

text \<open>
  The \<open>birthData\<close> of the \<open>useMemo\<close>: built from the \<open>birth_data\<close> that the chart
  response echoes; reading \<open>chartData.birth_data.year\<close> throws when \<open>chartData\<close> or
  \<open>chartData.birth_data\<close> is null or undefined, and then the screen renders nothing.
\<close>

definition results_birthData :: "jsval \<Rightarrow> string + jsval" where
  "results_birthData chartData' =
     (case get_prop chartData' ''birth_data'' of
        Inl e \<Rightarrow> Inl e
      | Inr bd \<Rightarrow>
          (case get_prop bd ''year'' of
             Inl e \<Rightarrow> Inl e
           | Inr y \<Rightarrow>
               Inr (JObj [(''year'', y),
                          (''month'', own_prop bd ''month''),
                          (''day'', own_prop bd ''day''),
                          (''hour'', own_prop bd ''hour''),
                          (''minute'', own_prop bd ''minute''),
                          (''second'', JNum 0),
                          (''lat'', own_prop bd ''lat''),
                          (''lon'', own_prop bd ''lon''),
                          (''ayanamsa'', JStr ''lahiri'')])))"

text \<open>A \<open>Date\<close>, as far as \<open>getFullYear\<close>, \<open>getMonth\<close> and \<open>getDate\<close> read it.\<close>

record js_date =
  getFullYear :: int
  getMonth :: int
  getDate :: int

text \<open>The requests of api/kundali.ts that the screen makes.\<close>

definition getEnhancedTransit :: "jsval \<Rightarrow> js_date \<Rightarrow> request" where
  "getEnhancedTransit birthData transitDate =
     (''/transit/enhanced'',
      JSON_stringify (object_spread birthData
        [(''transit_year'', JNum (of_int (getFullYear transitDate))),
         (''transit_month'', JNum (of_int (getMonth transitDate + 1))),
         (''transit_day'', JNum (of_int (getDate transitDate)))]))"

definition getTransitTimeline :: "jsval \<Rightarrow> jsval \<Rightarrow> request" where
  "getTransitTimeline birthData area =
     (''/transit/timeline'', JSON_stringify (object_spread birthData [(''area'', area)]))"

definition getHouseInterpretation :: "jsval \<Rightarrow> request" where
  "getHouseInterpretation birthData = (''/interpretation/houses'', JSON_stringify birthData)"

text \<open>The requests started by the three callbacks of the screen (\<open>now\<close> is
  \<open>new Date()\<close>); what they do with the responses is not modelled.\<close>

definition fetchTransit :: "jsval \<Rightarrow> js_date \<Rightarrow> request list" where
  "fetchTransit birthData now =
     [getEnhancedTransit birthData now, getTransitTimeline birthData (JStr ''career'')]"

definition handleTransitAreaPress :: "jsval \<Rightarrow> string \<Rightarrow> request list" where
  "handleTransitAreaPress birthData area = [getTransitTimeline birthData (JStr area)]"

definition fetchHouses :: "jsval \<Rightarrow> request list" where
  "fetchHouses birthData = [getHouseInterpretation birthData]"

text \<open>A request body that carries zero seconds and the Lahiri ayanamsa.\<close>

definition zero_seconds_lahiri :: "jsval \<Rightarrow> bool" where
  "zero_seconds_lahiri body =
     (own_prop body ''second'' = JNum 0 \<and> own_prop body ''ayanamsa'' = JStr ''lahiri'')"

section \<open>Concrete inputs\<close>

text \<open>Auxiliary predicate: a \<open>parseInt\<close> result that is NaN or lies in a range.\<close>

definition in_range_or_NaN :: "int option \<Rightarrow> int \<Rightarrow> int \<Rightarrow> bool" where
  "in_range_or_NaN r lo hi = (case r of None \<Rightarrow> True | Some x \<Rightarrow> lo \<le> x \<and> x \<le> hi)"

text \<open>A birth in New Delhi on 1990-06-15 at 10:30, as each client holds it.\<close>

definition parseFloat_delhi :: "string \<Rightarrow> jsval" where
  "parseFloat_delhi s =
     (if s = ''28.6139'' then JNum 28.6139 else if s = ''77.2090'' then JNum 77.209 else JNaN)"

definition delhi_form :: web_form where
  "delhi_form = \<lparr>form_year = ''1990'', form_month = ''6'', form_day = ''15'', form_hour = ''10'',
     form_minute = ''30'', form_lat = ''28.6139'', form_lon = ''77.2090'',
     form_place = ''New Delhi''\<rparr>"

definition delhi_home :: home_state where
  "delhi_home = \<lparr>year = ''1990'', month = ''6'', day = ''15'', hour = ''10'', minute = ''30'',
     selectedCity = \<lparr>city_name = ''New Delhi'', city_lat = ''28.6139'', city_lon = ''77.2090''\<rparr>,
     loading = False\<rparr>"

definition delhi_birthData :: jsval where
  "delhi_birthData =
     JObj [(''year'', JNum 1990), (''month'', JNum 6), (''day'', JNum 15), (''hour'', JNum 10),
           (''minute'', JNum 30), (''second'', JNum 0), (''lat'', JNum 28.6139),
           (''lon'', JNum 77.209), (''ayanamsa'', JStr ''lahiri'')]"

definition delhi_chart :: jsval where
  "delhi_chart = JObj [(''birth_data'', delhi_birthData)]"

definition initial_app :: app_state where
  "initial_app = \<lparr>chartData = JNull, dashaData = JNull, yogaData = JNull,
     interpretation_data = JNull, houseData = JNull, app_loading = False, app_error = JNull\<rparr>"

text \<open>A network that is down.\<close>

definition offline :: "request \<Rightarrow> fetch_result" where
  "offline req = NetworkError ''Failed to fetch''"

definition all_rejected :: "request list \<Rightarrow> string + jsval \<times> jsval \<times> jsval \<times> jsval" where
  "all_rejected reqs = Inl ''Network Error''"

definition new_year_2024 :: js_date where
  "new_year_2024 = \<lparr>getFullYear = 2024, getMonth = 0, getDate = 1\<rparr>"

text \<open>The HomeScreen with text pasted into the year field (the number pad cannot type
  it, pasting can; \<open>maxLength\<close> is 4).\<close>

definition pasted_year :: home_state where
  "pasted_year = \<lparr>year = ''abcd'', month = ''6'', day = ''15'', hour = ''10'', minute = ''30'',
     selectedCity = \<lparr>city_name = ''New Delhi'', city_lat = ''28.6139'', city_lon = ''77.2090''\<rparr>,
     loading = False\<rparr>"

section \<open>The web transit handlers (TransitAnalysis.js, EnhancedTransitAnalysis.js)\<close>

text \<open>The state variables of \<open>TransitAnalysis\<close> that \<open>analyzeTransits\<close> writes;
  \<open>EnhancedTransitAnalysis\<close> has \<open>enhancedData\<close> besides.\<close>

record transit_state =
  transitData :: jsval
  transit_error :: jsval
  transit_loading :: bool

record enhanced_state = transit_state +
  enhancedData :: jsval

text \<open>
  The \<open>try\<close> block of \<open>analyzeTransits\<close> in TransitAnalysis.js, from the awaited fetch on.
  It does not look at \<open>response.ok\<close>. Every exception it can raise is an Error object
  (the rejection of \<open>fetch\<close> or of \<open>response.json()\<close>, the TypeError of reading
  \<open>result.success\<close> on a null body), so it is modelled by its message.
\<close>

definition analyze_try :: "fetch_result \<Rightarrow> transit_state \<Rightarrow> transit_state attempt" where
  "analyze_try fetched st =
     (case fetched of
        NetworkError e \<Rightarrow> (st, Some e)
      | HttpResponse ok parsed \<Rightarrow>
          (case parsed of
             Inl e \<Rightarrow> (st, Some e)
           | Inr result \<Rightarrow>
               (case get_prop result ''success'' of
                  Inl e \<Rightarrow> (st, Some e)
                | Inr success \<Rightarrow>
                    if truthy success then (st\<lparr>transitData := own_prop result ''data''\<rparr>, None)
                    else (st\<lparr>transit_error :=
                            js_or (own_prop result ''error'') (JStr ''Failed to analyze transits'')\<rparr>,
                          None))))"

text \<open>\<open>analyzeTransits\<close> of TransitAnalysis.js: the guard on \<open>birthData\<close>, then
  \<open>try\<close>, \<open>catch\<close> (which reads \<open>err.message\<close>) and \<open>finally\<close>.\<close>

definition analyzeTransits :: "jsval \<Rightarrow> fetch_result \<Rightarrow> transit_state \<Rightarrow> transit_state" where
  "analyzeTransits birthData fetched st =
     (if \<not> truthy birthData
      then st\<lparr>transit_error := JStr ''Please calculate your birth chart first''\<rparr>
      else
        (case analyze_try fetched (st\<lparr>transit_loading := True, transit_error := JNull\<rparr>) of
           (st2, thrown) \<Rightarrow>
             (case thrown of
                None \<Rightarrow> st2
              | Some e \<Rightarrow> st2\<lparr>transit_error := JStr (''Failed to connect to server: '' @ e)\<rparr>)
               \<lparr>transit_loading := False\<rparr>))"

text \<open>The object that the enhanced handler builds for the basic view; \<open>native\<close> is
  \<open>result.native_data\<close>.\<close>

definition compatible_format :: "jsval \<Rightarrow> jsval \<Rightarrow> jsval" where
  "compatible_format result native =
     JObj [(''natal_moon_sign'', own_prop native ''natal_moon_sign''),
           (''natal_moon_nakshatra'', own_prop native ''natal_moon_nakshatra''),
           (''transit_date'', own_prop result ''transit_date''),
           (''analysis_results'', own_prop result ''planet_results''),
           (''summary'', own_prop result ''overall_summary''),
           (''favorable_planets'', own_prop result ''favorable_planets''),
           (''unfavorable_planets'', own_prop result ''unfavorable_planets'')]"

text \<open>The \<open>try\<close> block of \<open>analyzeTransits\<close> in EnhancedTransitAnalysis.js:
  \<open>setEnhancedData(result)\<close> comes before the reads of \<open>result.native_data\<close>.\<close>

definition analyze_enhanced_try :: "fetch_result \<Rightarrow> enhanced_state \<Rightarrow> enhanced_state attempt" where
  "analyze_enhanced_try fetched st =
     (case fetched of
        NetworkError e \<Rightarrow> (st, Some e)
      | HttpResponse ok parsed \<Rightarrow>
          (case parsed of
             Inl e \<Rightarrow> (st, Some e)
           | Inr result \<Rightarrow>
               (case get_prop result ''success'' of
                  Inl e \<Rightarrow> (st, Some e)
                | Inr success \<Rightarrow>
                    if truthy success then
                      (case get_prop (own_prop result ''native_data'') ''natal_moon_sign'' of
                         Inl e \<Rightarrow> (st\<lparr>enhancedData := result\<rparr>, Some e)
                       | Inr sign \<Rightarrow>
                           (st\<lparr>enhancedData := result,
                               transitData :=
                                 compatible_format result (own_prop result ''native_data'')\<rparr>,
                            None))
                    else (st\<lparr>transit_error :=
                            js_or (own_prop result ''error'') (JStr ''Failed to analyze transits'')\<rparr>,
                          None))))"

definition analyzeTransits_enhanced ::
  "jsval \<Rightarrow> fetch_result \<Rightarrow> enhanced_state \<Rightarrow> enhanced_state" where
  "analyzeTransits_enhanced birthData fetched st =
     (if \<not> truthy birthData
      then st\<lparr>transit_error := JStr ''Please calculate your birth chart first''\<rparr>
      else
        (case analyze_enhanced_try fetched (st\<lparr>transit_loading := True, transit_error := JNull\<rparr>) of
           (st2, thrown) \<Rightarrow>
             (case thrown of
                None \<Rightarrow> st2
              | Some e \<Rightarrow> st2\<lparr>transit_error := JStr (''Failed to connect to server: '' @ e)\<rparr>)
               \<lparr>transit_loading := False\<rparr>))"

text \<open>The error text as the envelope rule words it: \<open>r.error\<close>, or the fixed fallback
  when \<open>r.error\<close> is absent.\<close>

definition error_or_fallback_when_absent :: "jsval \<Rightarrow> jsval" where
  "error_or_fallback_when_absent r =
     (case own_prop r ''error'' of JUndef \<Rightarrow> JStr ''Failed to analyze transits'' | e \<Rightarrow> e)"

text \<open>Responses and states to run the handlers on.\<close>

definition failure_with_empty_error :: jsval where
  "failure_with_empty_error = JObj [(''success'', JBool False), (''error'', JStr [])]"

definition failure_with_message :: jsval where
  "failure_with_message = JObj [(''success'', JBool False), (''error'', JStr ''Invalid date'')]"

definition success_without_native_data :: jsval where
  "success_without_native_data = JObj [(''success'', JBool True), (''planet_results'', JArr [])]"

definition success_with_data :: jsval where
  "success_with_data =
     JObj [(''success'', JBool True),
           (''data'', JObj [(''analysis_results'', JArr [])]),
           (''native_data'', JObj [(''natal_moon_sign'', JStr ''Aries'')]),
           (''planet_results'', JArr [])]"

definition idle :: transit_state where
  "idle = \<lparr>transitData = JNull, transit_error = JNull, transit_loading = False\<rparr>"

definition idle_enhanced :: enhanced_state where
  "idle_enhanced = \<lparr>transitData = JNull, transit_error = JNull, transit_loading = False,
     enhancedData = JNull\<rparr>"

section \<open>The web YogaList (YogaList.js)\<close>

text \<open>\<open>Array.isArray\<close>, \<open>typeof v === 'object'\<close>, the elements of an array,
  \<open>Object.values\<close> (called here on a truthy value whose type is object) and
  \<open>Array.prototype.flat\<close> with its default depth 1.\<close>

fun Array_isArray :: "jsval \<Rightarrow> bool" where
  "Array_isArray (JArr xs) = True"
| "Array_isArray v = False"

fun typeof_object :: "jsval \<Rightarrow> bool" where
  "typeof_object JNull = True"
| "typeof_object (JArr xs) = True"
| "typeof_object (JObj kvs) = True"
| "typeof_object v = False"

fun elements :: "jsval \<Rightarrow> jsval list" where
  "elements (JArr xs) = xs"
| "elements v = []"

fun Object_values :: "jsval \<Rightarrow> jsval list" where
  "Object_values (JObj kvs) = map snd (AList.clearjunk kvs)"
| "Object_values (JArr xs) = xs"
| "Object_values v = []"

definition flat :: "jsval list \<Rightarrow> jsval list" where
  "flat xs = concat (map (\<lambda>v. case v of JArr ys \<Rightarrow> ys | _ \<Rightarrow> [v]) xs)"

text \<open>The four-way choice of \<open>yogaList\<close> in \<open>YogaList\<close>, for a truthy \<open>yogas\<close>.\<close>

definition yogaList_of :: "jsval \<Rightarrow> jsval list" where
  "yogaList_of yogas =
     (if truthy (own_prop yogas ''all_yogas'') \<and> Array_isArray (own_prop yogas ''all_yogas'')
        then elements (own_prop yogas ''all_yogas'')
      else if truthy (own_prop yogas ''detected_yogas'')
              \<and> Array_isArray (own_prop yogas ''detected_yogas'')
        then elements (own_prop yogas ''detected_yogas'')
      else if Array_isArray yogas
        then elements yogas
      else if truthy (own_prop yogas ''yogas'') \<and> typeof_object (own_prop yogas ''yogas'')
        then flat (Object_values (own_prop yogas ''yogas''))
      else [])"

text \<open>\<open>yogaList.filter(y => y.is_present !== false)\<close>: reading \<open>is_present\<close> on a null
  or undefined element throws.\<close>

fun filter_present :: "jsval list \<Rightarrow> string + jsval list" where
  "filter_present [] = Inr []"
| "filter_present (y # ys) =
     (case get_prop y ''is_present'' of
        Inl e \<Rightarrow> Inl e
      | Inr p \<Rightarrow>
          (case filter_present ys of
             Inl e \<Rightarrow> Inl e
           | Inr rest \<Rightarrow> Inr (if p \<noteq> JBool False then y # rest else rest)))"

text \<open>
  What is drawn for one yoga: the name (\<open>y.name || y.yoga_name\<close>), the value of
  \<open>y.strength && <span>\<close> (\<open>Inr\<close> the span's text, \<open>Inl\<close> the falsy value), and the
  description with its three fallbacks.
\<close>

record yoga_card =
  card_name :: jsval
  card_strength :: "jsval + jsval"
  card_description :: jsval

definition yoga_card_of :: "jsval \<Rightarrow> yoga_card" where
  "yoga_card_of y =
     \<lparr>card_name = js_or (own_prop y ''name'') (own_prop y ''yoga_name''),
      card_strength =
        (if truthy (own_prop y ''strength'') then Inr (own_prop y ''strength'')
         else Inl (own_prop y ''strength'')),
      card_description =
        js_or (js_or (js_or (own_prop y ''description'') (own_prop y ''effects''))
                 (own_prop y ''notes''))
          (JStr ''Auspicious yoga present in chart'')\<rparr>"

text \<open>What the component returns: null, the "No yogas detected" box, or the cards.\<close>

datatype rendering = RenderNull | NoYogas | Cards "yoga_card list"

definition YogaList :: "jsval \<Rightarrow> string + rendering" where
  "YogaList yogas =
     (if \<not> truthy yogas then Inr RenderNull
      else
        (case filter_present (yogaList_of yogas) of
           Inl e \<Rightarrow> Inl e
         | Inr yogaList \<Rightarrow>
             Inr (if length yogaList = 0 then NoYogas else Cards (map yoga_card_of yogaList))))"

fun cards_of :: "rendering \<Rightarrow> yoga_card list" where
  "cards_of (Cards cs) = cs"
| "cards_of r = []"

text \<open>
  The selection as the response shapes describe it: \<open>all_yogas\<close> when it is an array,
  otherwise \<open>detected_yogas\<close> when it is an array, otherwise the payload itself when it is
  an array, otherwise the lists of the category dictionary \<open>yogas\<close>, one after the other.
\<close>

definition described_source :: "jsval \<Rightarrow> jsval list" where
  "described_source y =
     (case own_prop y ''all_yogas'' of
        JArr xs \<Rightarrow> xs
      | _ \<Rightarrow>
        (case own_prop y ''detected_yogas'' of
           JArr xs \<Rightarrow> xs
         | _ \<Rightarrow>
           (case y of
              JArr xs \<Rightarrow> xs
            | _ \<Rightarrow>
              (case own_prop y ''yogas'' of
                 JObj kvs \<Rightarrow> concat (map (\<lambda>kv. elements (snd kv)) (AList.clearjunk kvs))
               | _ \<Rightarrow> []))))"

definition shown_as_present :: "jsval \<Rightarrow> bool" where
  "shown_as_present r = (own_prop r ''is_present'' \<noteq> JBool False)"

text \<open>A payload of the shapes the endpoint documents: where the records are looked for
  under \<open>yogas\<close>, that is a dictionary from categories to lists (or nothing), and every
  record drawn can carry fields (it is not null).\<close>

definition yoga_payload :: "jsval \<Rightarrow> bool" where
  "yoga_payload y =
     ((Array_isArray (own_prop y ''all_yogas'') \<or> Array_isArray (own_prop y ''detected_yogas'')
        \<or> Array_isArray y
        \<or> (case own_prop y ''yogas'' of
              JArr xs \<Rightarrow> False
            | JObj kvs \<Rightarrow> list_all (\<lambda>kv. Array_isArray (snd kv)) kvs
            | _ \<Rightarrow> True))
      \<and> list_all (\<lambda>r. r \<noteq> JNull \<and> r \<noteq> JUndef) (described_source y))"

definition raj_yoga :: jsval where
  "raj_yoga = JObj [(''name'', JStr ''Raj Yoga''), (''strength'', JStr ''Strong'')]"

definition absent_yoga :: jsval where
  "absent_yoga = JObj [(''name'', JStr ''Kemadruma''), (''is_present'', JBool False)]"

definition dhana_yoga :: jsval where
  "dhana_yoga = JObj [(''name'', JStr ''Dhana Yoga''), (''is_present'', JBool True)]"

section \<open>The transit analyzer's final status (engine behind the API)\<close>

datatype final_status = Good | Bad | Obstructed

record vedha_info =
  isObstructed :: bool
  obstructingPlanet :: "string option"

record transit_result =
  planetId :: string
  score :: int
  finalStatus :: final_status
  vedhaInfo :: vedha_info

text \<open>
  Modelled from the spec: the aggregation step of the transit analyzer, which is not
  among the sources (the clients only draw \<open>final_status\<close>, \<open>score\<close> and
  \<open>vedha.is_obstructed\<close> as received). The spec: "numeric score = weighted sum of active
  layer contributions; final status = Good/Bad/Obstructed, where Obstructed strictly
  requires Vedha's obstruction condition regardless of numeric score sign. Score sign
  alone determines Good vs Bad when not obstructed." A layer is a weight and a
  contribution. The spec names no status for a score of zero; it is put with Good here,
  as the clients colour \<open>score >= 0\<close> green.
\<close>

definition weighted_score :: "(int \<times> int) list \<Rightarrow> int" where
  "weighted_score layers = sum_list (map (\<lambda>l. fst l * snd l) layers)"

text \<open>Modelled from the spec: the final status of the absent aggregation step, Obstructed
  under Vedha's obstruction whatever the score, else Bad below zero and Good otherwise.\<close>

definition status_of :: "bool \<Rightarrow> int \<Rightarrow> final_status" where
  "status_of obstructed s = (if obstructed then Obstructed else if s < 0 then Bad else Good)"

text \<open>Modelled from the spec: the result record that the absent transit analyzer returns for
  one planet, from the layers and the Vedha finding.\<close>

definition evaluate_transit :: "string \<Rightarrow> (int \<times> int) list \<Rightarrow> vedha_info \<Rightarrow> transit_result" where
  "evaluate_transit p layers v =
     \<lparr>planetId = p, score = weighted_score layers,
      finalStatus = status_of (isObstructed v) (weighted_score layers), vedhaInfo = v\<rparr>"

text \<open>The relation between status, obstruction and score sign as the property words it.\<close>

definition status_follows_sign :: "transit_result \<Rightarrow> bool" where
  "status_follows_sign res =
     ((finalStatus res = Obstructed \<longleftrightarrow> isObstructed (vedhaInfo res))
      \<and> (\<not> isObstructed (vedhaInfo res) \<longrightarrow>
          (finalStatus res = Good \<longleftrightarrow> 0 < score res) \<and> (finalStatus res = Bad \<longleftrightarrow> score res < 0)))"

definition no_vedha :: vedha_info where
  "no_vedha = \<lparr>isObstructed = False, obstructingPlanet = None\<rparr>"

definition vedha_by_saturn :: vedha_info where
  "vedha_by_saturn = \<lparr>isObstructed = True, obstructingPlanet = Some ''Saturn''\<rparr>"

section \<open>The timeline summary (engine) and its use by the web client\<close>

record timeline_point =
  point_month :: string
  point_year :: int
  normalizedScore :: real

text \<open>
  Modelled from the spec: the summary of the timeline generator, which is not among the
  sources. The spec: "best/challenging months are the argmax/argmin of normalizedScore
  across the 12 points, ties broken by earliest month", the lists holding positions that
  count from 1. \<open>peak\<close> and \<open>lowest\<close> are the largest and the smallest score of a
  non-empty list; \<open>first_position\<close> is the 1-based position of the first point with a
  given score.
\<close>

fun peak :: "real list \<Rightarrow> real" where
  "peak [] = 0"
| "peak [x] = x"
| "peak (x # xs) = max x (peak xs)"

text \<open>Modelled from the spec: the smallest score, for the argmin of the absent timeline
  generator.\<close>

fun lowest :: "real list \<Rightarrow> real" where
  "lowest [] = 0"
| "lowest [x] = x"
| "lowest (x # xs) = min x (lowest xs)"

text \<open>Modelled from the spec: "ties broken by earliest month" in the absent timeline
  generator, as a position counted from 1.\<close>

definition first_position :: "real \<Rightarrow> real list \<Rightarrow> int" where
  "first_position v scores = 1 + int (length (takeWhile (\<lambda>s. s \<noteq> v) scores))"

text \<open>Modelled from the spec: \<open>summary.best_months\<close> of the absent timeline generator.\<close>

definition best_months :: "timeline_point list \<Rightarrow> int list" where
  "best_months monthly_data =
     (if monthly_data = [] then []
      else [first_position (peak (map normalizedScore monthly_data))
              (map normalizedScore monthly_data)])"

text \<open>Modelled from the spec: \<open>summary.challenging_months\<close> of the absent timeline generator.\<close>

definition challenging_months :: "timeline_point list \<Rightarrow> int list" where
  "challenging_months monthly_data =
     (if monthly_data = [] then []
      else [first_position (lowest (map normalizedScore monthly_data))
              (map normalizedScore monthly_data)])"

text \<open>
  From the source (\<open>renderTimelineTab\<close> in EnhancedTransitAnalysis.js):
  \<open>monthly_data[m-1]\<close> for a listed number \<open>m\<close>, undefined (\<open>None\<close>) outside the array,
  and the text drawn for it, \<open>monthly_data[m-1]?.month?.slice(0,3) || m\<close> (\<open>Inr\<close> the
  three letters, \<open>Inl\<close> the number itself).
\<close>

definition month_at :: "timeline_point list \<Rightarrow> int \<Rightarrow> timeline_point option" where
  "month_at monthly_data m =
     (if 0 \<le> m - 1 \<and> m - 1 < int (length monthly_data)
      then Some (monthly_data ! nat (m - 1)) else None)"

definition month_label :: "timeline_point list \<Rightarrow> int \<Rightarrow> int + string" where
  "month_label monthly_data m =
     (case month_at monthly_data m of
        None \<Rightarrow> Inl m
      | Some p \<Rightarrow> if take 3 (point_month p) = [] then Inl m else Inr (take 3 (point_month p)))"

definition year_2024 :: "timeline_point list" where
  "year_2024 =
     [\<lparr>point_month = ''January'', point_year = 2024, normalizedScore = 55\<rparr>,
      \<lparr>point_month = ''February'', point_year = 2024, normalizedScore = 72\<rparr>,
      \<lparr>point_month = ''March'', point_year = 2024, normalizedScore = 40\<rparr>,
      \<lparr>point_month = ''April'', point_year = 2024, normalizedScore = 72\<rparr>,
      \<lparr>point_month = ''May'', point_year = 2024, normalizedScore = 61\<rparr>,
      \<lparr>point_month = ''June'', point_year = 2024, normalizedScore = 28\<rparr>,
      \<lparr>point_month = ''July'', point_year = 2024, normalizedScore = 45\<rparr>,
      \<lparr>point_month = ''August'', point_year = 2024, normalizedScore = 28\<rparr>,
      \<lparr>point_month = ''September'', point_year = 2024, normalizedScore = 50\<rparr>,
      \<lparr>point_month = ''October'', point_year = 2024, normalizedScore = 66\<rparr>,
      \<lparr>point_month = ''November'', point_year = 2024, normalizedScore = 70\<rparr>,
      \<lparr>point_month = ''December'', point_year = 2024, normalizedScore = 30\<rparr>]"

section \<open>The Vimshottari dasha engine (engine behind the API)\<close>

datatype graha = Ketu | Venus | Sun | Moon | Mars | Rahu | Jupiter | Saturn | Mercury

text \<open>A period with its sub-periods; dates are points of time counted in years.\<close>

datatype dasha_period =
  DashaPeriod (lord: graha) (startDate: real) (endDate: real) (durationYears: real)
    (antardashas: "dasha_period list")

text \<open>
  Modelled from the spec: the dasha engine, which is not among the sources. The catalog
  is the Vimshottari table (the fixed order of the nine lords and their years, 120 in
  all). The spec: the balance of the first dasha is "(nakshatra_span_remaining /
  nakshatra_span_total) x dasha_lord_total_years"; the engine "walks the fixed 9-planet
  Vimshottari sequence cyclically, each subsequent full period using its catalog
  duration", out to "a fixed 120-year horizon"; "Mahadasha periods partition exactly
  120 years (the full Vimshottari cycle) starting from a birth-relative offset"; and
  "Antardasha sub-periods subdivide a mahadasha proportionally by the same
  120-year-cycle ratios, re-anchored to the mahadasha's own start date". Read together:
  the birth dasha ends one balance after birth and is listed whole, from its start
  before birth (the birth-relative offset), and eight full periods follow it.
\<close>

fun dasha_years :: "graha \<Rightarrow> real" where
  "dasha_years Ketu = 7"
| "dasha_years Venus = 20"
| "dasha_years Sun = 6"
| "dasha_years Moon = 10"
| "dasha_years Mars = 7"
| "dasha_years Rahu = 18"
| "dasha_years Jupiter = 16"
| "dasha_years Saturn = 19"
| "dasha_years Mercury = 17"

text \<open>Modelled from the spec: the fixed cyclic order of the nine lords in the absent
  knowledge base.\<close>

fun next_lord :: "graha \<Rightarrow> graha" where
  "next_lord Ketu = Venus"
| "next_lord Venus = Sun"
| "next_lord Sun = Moon"
| "next_lord Moon = Mars"
| "next_lord Mars = Rahu"
| "next_lord Rahu = Jupiter"
| "next_lord Jupiter = Saturn"
| "next_lord Saturn = Mercury"
| "next_lord Mercury = Ketu"

text \<open>Modelled from the spec: the walk of the absent dasha engine along the sequence.\<close>

fun walk :: "nat \<Rightarrow> graha \<Rightarrow> graha list" where
  "walk 0 g = []"
| "walk (Suc n) g = g # walk n (next_lord g)"

text \<open>Modelled from the spec: one full cycle of the absent dasha engine, nine lords from the
  birth lord.\<close>

definition cycle_from :: "graha \<Rightarrow> graha list" where
  "cycle_from g = walk 9 g"

text \<open>Modelled from the spec: periods of the absent dasha engine laid end to end from a
  start, each with the sub-periods \<open>sub\<close> gives it.\<close>

fun lay_out ::
  "(graha \<Rightarrow> real \<Rightarrow> real \<Rightarrow> dasha_period list) \<Rightarrow> real \<Rightarrow> (graha \<times> real) list
     \<Rightarrow> dasha_period list" where
  "lay_out sub t [] = []"
| "lay_out sub t (gd # rest) =
     DashaPeriod (fst gd) t (t + snd gd) (snd gd) (sub (fst gd) t (snd gd))
       # lay_out sub (t + snd gd) rest"

text \<open>Modelled from the spec: the antardashas of the absent dasha engine, the parent's years
  split by the ratios of the 120-year cycle from the parent's own start, beginning with
  the parent's lord.\<close>

definition antardashas_of :: "graha \<Rightarrow> real \<Rightarrow> real \<Rightarrow> dasha_period list" where
  "antardashas_of g start years =
     lay_out (\<lambda>h t d. []) start (map (\<lambda>h. (h, years * dasha_years h / 120)) (cycle_from g))"

text \<open>Modelled from the spec: the balance of the first dasha in the absent dasha engine.\<close>

definition balance_of_first_dasha :: "graha \<Rightarrow> real \<Rightarrow> real \<Rightarrow> real" where
  "balance_of_first_dasha g span_remaining span_total =
     (span_remaining / span_total) * dasha_years g"

text \<open>Modelled from the spec: the mahadasha list of the absent dasha engine.\<close>

definition mahadashas :: "real \<Rightarrow> graha \<Rightarrow> real \<Rightarrow> real \<Rightarrow> dasha_period list" where
  "mahadashas birth g span_remaining span_total =
     lay_out antardashas_of
       (birth + balance_of_first_dasha g span_remaining span_total - dasha_years g)
       (map (\<lambda>h. (h, dasha_years h)) (cycle_from g))"

text \<open>Each period ends where the next begins.\<close>

fun contiguous :: "dasha_period list \<Rightarrow> bool" where
  "contiguous (p # q # ps) = (endDate p = startDate q \<and> contiguous (q # ps))"
| "contiguous ps = True"

text \<open>A list of periods that partitions the span from \<open>a\<close> to \<open>b\<close>: non-empty, each
  period of positive length with its duration the length of its date range, the first
  starting at \<open>a\<close>, each next one starting where the one before ends, the last ending
  at \<open>b\<close>.\<close>

definition partitions :: "dasha_period list \<Rightarrow> real \<Rightarrow> real \<Rightarrow> bool" where
  "partitions ps a b =
     (ps \<noteq> [] \<and> startDate (hd ps) = a \<and> endDate (last ps) = b \<and> contiguous ps
      \<and> list_all (\<lambda>p. 0 < durationYears p \<and> endDate p = startDate p + durationYears p) ps)"

section \<open>Theorems\<close>

subsection \<open>C1: the outlook bands\<close>

lemma getOutlookLabel_bands:
  "(getOutlookLabel s = ''Favorable'' \<longleftrightarrow> 70 \<le> s)
   \<and> (getOutlookLabel s = ''Above Average'' \<longleftrightarrow> 50 \<le> s \<and> s < 70)
   \<and> (getOutlookLabel s = ''Below Average'' \<longleftrightarrow> 30 \<le> s \<and> s < 50)
   \<and> (getOutlookLabel s = ''Challenging'' \<longleftrightarrow> s < 30)"
  by (simp add: getOutlookLabel_def)

lemma getOutlookColor_bands:
  "(getOutlookColor s = ''#4ade80'' \<longleftrightarrow> 70 \<le> s)
   \<and> (getOutlookColor s = ''#fbbf24'' \<longleftrightarrow> 50 \<le> s \<and> s < 70)
   \<and> (getOutlookColor s = ''#fb923c'' \<longleftrightarrow> 30 \<le> s \<and> s < 50)
   \<and> (getOutlookColor s = ''#f87171'' \<longleftrightarrow> s < 30)"
  by (simp add: getOutlookColor_def)

lemma getStrengthColor_eq_getOutlookColor: "getStrengthColor s = getOutlookColor s"
  by (simp add: getStrengthColor_def getOutlookColor_def)

text \<open>
  C1. For every score \<open>s\<close> (a number; NaN is not one and cannot arrive in a JSON body),
  the label is Favorable iff \<open>s \<ge> 70\<close>, Above Average iff \<open>50 \<le> s < 70\<close>, Below Average
  iff \<open>30 \<le> s < 50\<close> and Challenging iff \<open>s < 30\<close>; the web colour function has the same
  four bands with the same three cutoffs, and the iOS colour function returns the web
  colour for every input.
\<close>

theorem C1_outlook_bands:
  "(getOutlookLabel s = ''Favorable'' \<longleftrightarrow> 70 \<le> s)
   \<and> (getOutlookLabel s = ''Above Average'' \<longleftrightarrow> 50 \<le> s \<and> s < 70)
   \<and> (getOutlookLabel s = ''Below Average'' \<longleftrightarrow> 30 \<le> s \<and> s < 50)
   \<and> (getOutlookLabel s = ''Challenging'' \<longleftrightarrow> s < 30)
   \<and> (getOutlookColor s = ''#4ade80'' \<longleftrightarrow> 70 \<le> s)
   \<and> (getOutlookColor s = ''#fbbf24'' \<longleftrightarrow> 50 \<le> s \<and> s < 70)
   \<and> (getOutlookColor s = ''#fb923c'' \<longleftrightarrow> 30 \<le> s \<and> s < 50)
   \<and> (getOutlookColor s = ''#f87171'' \<longleftrightarrow> s < 30)
   \<and> getStrengthColor s = getOutlookColor s"
  using getOutlookLabel_bands [of s] getOutlookColor_bands [of s]
    getStrengthColor_eq_getOutlookColor [of s]
  by blast

subsection \<open>C9: seconds and ayanamsa of every request\<close>

lemma map_of_stringified:
  "map_of kvs k = Some v \<Longrightarrow> v \<noteq> JUndef \<Longrightarrow>
   map_of (map (\<lambda>kv. (fst kv, JSON_stringify (snd kv))) (filter (\<lambda>kv. snd kv \<noteq> JUndef) kvs)) k
     = Some (JSON_stringify v)"
  by (induction kvs) (auto split: if_splits)

lemma own_prop_stringified:
  "own_prop (JObj kvs) k = v \<Longrightarrow> v \<noteq> JUndef \<Longrightarrow>
   own_prop (JSON_stringify (JObj kvs)) k = JSON_stringify v"
  using map_of_stringified [of kvs k v]
  by (auto split: option.splits)

lemma zero_seconds_lahiri_stringified:
  "zero_seconds_lahiri (JObj kvs) \<Longrightarrow> zero_seconds_lahiri (JSON_stringify (JObj kvs))"
  unfolding zero_seconds_lahiri_def
  using own_prop_stringified [of kvs "''second''" "JNum 0"]
    own_prop_stringified [of kvs "''ayanamsa''" "JStr ''lahiri''"]
  by simp

lemma map_of_spread:
  "k \<notin> fst ` set extra \<Longrightarrow>
   map_of (foldl (\<lambda>kvs kv. AList.update (fst kv) (snd kv) kvs) al extra) k = map_of al k"
  by (induction extra arbitrary: al) (auto simp: update_conv')

lemma own_prop_spread:
  "k \<notin> fst ` set extra \<Longrightarrow> own_prop (object_spread (JObj kvs) extra) k = own_prop (JObj kvs) k"
  by (simp add: object_spread_def map_of_spread map_of_clearjunk)

lemma zero_seconds_lahiri_spread:
  "zero_seconds_lahiri (JObj kvs) \<Longrightarrow> ''second'' \<notin> fst ` set extra \<Longrightarrow>
   ''ayanamsa'' \<notin> fst ` set extra \<Longrightarrow> zero_seconds_lahiri (object_spread (JObj kvs) extra)"
  by (simp add: zero_seconds_lahiri_def own_prop_spread)

lemma object_spread_JObj: "\<exists>kvs'. object_spread v extra = JObj kvs'"
  by (simp add: object_spread_def)

lemma home_birthData_zero_seconds_lahiri: "zero_seconds_lahiri (home_birthData pf st)"
  by (simp add: zero_seconds_lahiri_def home_birthData_def)

lemma app_birthData_zero_seconds_lahiri: "zero_seconds_lahiri (app_birthData pf form)"
  by (simp add: zero_seconds_lahiri_def app_birthData_def)

lemma results_birthData_zero_seconds_lahiri:
  "results_birthData cd = Inr bd \<Longrightarrow> zero_seconds_lahiri bd \<and> (\<exists>kvs. bd = JObj kvs)"
  by (auto simp: results_birthData_def zero_seconds_lahiri_def split: sum.splits)

lemma home_birthData_JObj: "\<exists>kvs. home_birthData pf st = JObj kvs"
  by (simp add: home_birthData_def)

lemma app_birthData_JObj: "\<exists>kvs. app_birthData pf form = JObj kvs"
  by (simp add: app_birthData_def)

lemma home_calls_bodies:
  "zero_seconds_lahiri (JObj kvs) \<Longrightarrow> req \<in> set (home_calls (JObj kvs)) \<Longrightarrow> zero_seconds_lahiri (snd req)"
  using zero_seconds_lahiri_stringified [of kvs]
  by (auto simp: home_calls_def)

lemma fetch_json_sent:
  "\<forall>req\<in>set (snd p). snd req = body \<Longrightarrow>
   \<forall>req\<in>set (snd (fst (fetch_json fetch url body required setData p))). snd req = body"
  by (cases p) (auto simp: fetch_json_def split: fetch_result.splits sum.splits)

lemma and_then_sent:
  assumes "\<forall>req\<in>set (snd (fst r)). snd req = body"
    and "\<And>p. \<forall>req\<in>set (snd p). snd req = body \<Longrightarrow> \<forall>req\<in>set (snd (fst (f p))). snd req = body"
  shows "\<forall>req\<in>set (snd (fst (and_then r f))). snd req = body"
proof (cases r)
  case (Pair p thrown)
  show ?thesis
  proof (cases thrown)
    case None
    with Pair assms show ?thesis by (simp add: and_then_def)
  next
    case (Some e)
    with Pair assms(1) show ?thesis by (simp add: and_then_def)
  qed
qed

lemma step_sent:
  "\<forall>req\<in>set (snd (fst r)). snd req = body \<Longrightarrow>
   \<forall>req\<in>set (snd (fst (and_then r (fetch_json fetch url body required setData)))). snd req = body"
  by (rule and_then_sent, assumption, rule fetch_json_sent)

lemma handleFormSubmit_requests:
  "snd (handleFormSubmit pf fetch form st) =
     snd (fst (and_then (and_then (and_then (and_then
       (fetch_json fetch ''/api/v1/chart/calculate'' (JSON_stringify (app_birthData pf form)) True
          (\<lambda>v s. s\<lparr>chartData := v\<rparr>) (st\<lparr>app_loading := True, app_error := JNull\<rparr>, []))
       (fetch_json fetch ''/api/v1/dasha/calculate'' (JSON_stringify (app_birthData pf form)) False
          (\<lambda>v s. s\<lparr>dashaData := v\<rparr>)))
       (fetch_json fetch ''/api/v1/yoga/detect'' (JSON_stringify (app_birthData pf form)) False
          (\<lambda>v s. s\<lparr>yogaData := v\<rparr>)))
       (fetch_json fetch ''/api/v1/interpretation/summary'' (JSON_stringify (app_birthData pf form)) False
          (\<lambda>v s. s\<lparr>interpretation_data := v\<rparr>)))
       (fetch_json fetch ''/api/v1/interpretation/houses'' (JSON_stringify (app_birthData pf form)) False
          (\<lambda>v s. s\<lparr>houseData := v\<rparr>))))"
  unfolding handleFormSubmit_def Let_def case_prod_beta snd_conv ..

lemma handleFormSubmit_sent:
  "\<forall>req\<in>set (snd (handleFormSubmit pf fetch form st)).
     snd req = JSON_stringify (app_birthData pf form)"
  unfolding handleFormSubmit_requests
  by (intro step_sent fetch_json_sent) simp

lemma fetch_json_first:
  "snd p = [] \<Longrightarrow> snd (fst (fetch_json fetch url body required setData p)) = [(url, body)]"
  by (cases p) (auto simp: fetch_json_def split: fetch_result.splits sum.splits)

lemma fetch_json_grows:
  "snd p \<noteq> [] \<Longrightarrow> snd (fst (fetch_json fetch url body required setData p)) \<noteq> []"
  by (cases p) (auto simp: fetch_json_def split: fetch_result.splits sum.splits)

lemma step_grows:
  "snd (fst r) \<noteq> [] \<Longrightarrow> snd (fst (and_then r (fetch_json fetch url body required setData))) \<noteq> []"
proof (cases r)
  case (Pair p thrown)
  assume "snd (fst r) \<noteq> []"
  with Pair show ?thesis
    by (cases thrown) (simp_all add: and_then_def fetch_json_grows)
qed

lemma handleFormSubmit_sends: "snd (handleFormSubmit pf fetch form st) \<noteq> []"
  unfolding handleFormSubmit_requests
  by (intro step_grows) (simp add: fetch_json_first)

lemma results_calls_bodies:
  assumes "zero_seconds_lahiri (JObj kvs)"
    and "req \<in> set (fetchTransit (JObj kvs) now @ handleTransitAreaPress (JObj kvs) area
            @ fetchHouses (JObj kvs))"
  shows "zero_seconds_lahiri (snd req)"
proof -
  have t: "zero_seconds_lahiri (snd (getEnhancedTransit (JObj kvs) now))"
  proof -
    obtain kvs' where k: "object_spread (JObj kvs)
        [(''transit_year'', JNum (of_int (getFullYear now))),
         (''transit_month'', JNum (of_int (getMonth now + 1))),
         (''transit_day'', JNum (of_int (getDate now)))] = JObj kvs'"
      using object_spread_JObj by blast
    have "zero_seconds_lahiri (JObj kvs')"
      unfolding k [symmetric] by (rule zero_seconds_lahiri_spread [OF assms(1)]) simp_all
    then show ?thesis
      unfolding getEnhancedTransit_def snd_conv k by (rule zero_seconds_lahiri_stringified)
  qed
  have l: "zero_seconds_lahiri (snd (getTransitTimeline (JObj kvs) a))" for a
  proof -
    obtain kvs' where k: "object_spread (JObj kvs) [(''area'', a)] = JObj kvs'"
      using object_spread_JObj by blast
    have "zero_seconds_lahiri (JObj kvs')"
      unfolding k [symmetric] by (rule zero_seconds_lahiri_spread [OF assms(1)]) simp_all
    then show ?thesis
      unfolding getTransitTimeline_def snd_conv k by (rule zero_seconds_lahiri_stringified)
  qed
  have h: "zero_seconds_lahiri (snd (getHouseInterpretation (JObj kvs)))"
    unfolding getHouseInterpretation_def snd_conv
    by (rule zero_seconds_lahiri_stringified [OF assms(1)])
  from assms(2) t l h show ?thesis
    by (auto simp: fetchTransit_def handleTransitAreaPress_def fetchHouses_def)
qed

lemma parseInt_1990: "parseInt ''1990'' = Some 1990" by code_simp
lemma parseInt_6: "parseInt ''6'' = Some 6" by code_simp
lemma parseInt_15: "parseInt ''15'' = Some 15" by code_simp
lemma parseInt_10: "parseInt ''10'' = Some 10" by code_simp
lemma parseInt_30: "parseInt ''30'' = Some 30" by code_simp

lemma validateInputs_delhi: "validateInputs delhi_home = (True, None)"
  by (simp add: validateInputs_def delhi_home_def parseInt_1990 parseInt_6 parseInt_15
      parseInt_10 parseInt_30 js_lt_def js_gt_def)

lemma handleSubmit_requests:
  "requests (handleSubmit pf net st) =
     (if fst (validateInputs st) then home_calls (home_birthData pf st) else [])"
proof (cases "validateInputs st")
  case (Pair ok a)
  then show ?thesis
    by (cases ok) (simp_all add: handleSubmit_def Let_def split: sum.split)
qed

lemma results_birthData_delhi: "results_birthData delhi_chart = Inr delhi_birthData"
  by (simp add: results_birthData_def delhi_chart_def delhi_birthData_def get_prop_def)

text \<open>
  C9. Every request that the web App's \<open>handleFormSubmit\<close>, the iOS HomeScreen's
  \<open>handleSubmit\<close> and the callbacks of the iOS ResultsScreen send carries \<open>second\<close> equal
  to 0 and \<open>ayanamsa\<close> equal to \<open>lahiri\<close>, whatever the form holds, whatever the network
  answers and whatever the chart response echoes; the web App always sends at least one.
  The form and state records have no field for either value: the literals are the only
  source.
\<close>

theorem C9_requests_zero_seconds_lahiri:
  "(snd (handleFormSubmit pf fetch form st) \<noteq> []
      \<and> (\<forall>req\<in>set (snd (handleFormSubmit pf fetch form st)). zero_seconds_lahiri (snd req)))
   \<and> (\<forall>req\<in>set (requests (handleSubmit pf' allSettled hst)). zero_seconds_lahiri (snd req))
   \<and> (\<forall>birthData. results_birthData chart = Inr birthData \<longrightarrow>
        (\<forall>req\<in>set (fetchTransit birthData now @ handleTransitAreaPress birthData area
                      @ fetchHouses birthData). zero_seconds_lahiri (snd req)))"
proof (intro conjI allI impI ballI)
  show "snd (handleFormSubmit pf fetch form st) \<noteq> []" by (rule handleFormSubmit_sends)
next
  fix req assume "req \<in> set (snd (handleFormSubmit pf fetch form st))"
  then have b: "snd req = JSON_stringify (app_birthData pf form)"
    using handleFormSubmit_sent by blast
  obtain kvs where k: "app_birthData pf form = JObj kvs" using app_birthData_JObj by blast
  show "zero_seconds_lahiri (snd req)"
    unfolding b k
    by (rule zero_seconds_lahiri_stringified) (simp add: k [symmetric] app_birthData_zero_seconds_lahiri)
next
  fix req assume r: "req \<in> set (requests (handleSubmit pf' allSettled hst))"
  obtain kvs where k: "home_birthData pf' hst = JObj kvs" using home_birthData_JObj by blast
  have z: "zero_seconds_lahiri (JObj kvs)"
    by (simp add: k [symmetric] home_birthData_zero_seconds_lahiri)
  from r have "req \<in> set (home_calls (JObj kvs))"
    by (simp add: handleSubmit_requests k split: if_splits)
  with z show "zero_seconds_lahiri (snd req)" by (rule home_calls_bodies)
next
  fix birthData req
  assume bd: "results_birthData chart = Inr birthData"
    and r: "req \<in> set (fetchTransit birthData now @ handleTransitAreaPress birthData area
                      @ fetchHouses birthData)"
  from results_birthData_zero_seconds_lahiri [OF bd]
  obtain kvs where z: "zero_seconds_lahiri birthData" and k: "birthData = JObj kvs" by blast
  from z r show "zero_seconds_lahiri (snd req)"
    unfolding k by (rule results_calls_bodies)
qed

theorem C9_requests_zero_seconds_lahiri_witness:
  "zero_seconds_lahiri (snd (hd (snd (handleFormSubmit parseFloat_delhi offline delhi_form initial_app))))
   \<and> length (requests (handleSubmit parseFloat_delhi all_rejected delhi_home)) = 4
   \<and> zero_seconds_lahiri (snd (hd (requests (handleSubmit parseFloat_delhi all_rejected delhi_home))))
   \<and> results_birthData delhi_chart = Inr delhi_birthData
   \<and> zero_seconds_lahiri (snd (getEnhancedTransit delhi_birthData new_year_2024))
   \<and> zero_seconds_lahiri (snd (getTransitTimeline delhi_birthData (JStr ''finance'')))"
proof -
  note c = C9_requests_zero_seconds_lahiri [of parseFloat_delhi offline delhi_form initial_app
      parseFloat_delhi all_rejected delhi_home delhi_chart new_year_2024 "''finance''"]
  have n: "length (requests (handleSubmit parseFloat_delhi all_rejected delhi_home)) = 4"
    by (simp add: handleSubmit_requests validateInputs_delhi home_calls_def)
  then have "requests (handleSubmit parseFloat_delhi all_rejected delhi_home) \<noteq> []" by auto
  with c n results_birthData_delhi show ?thesis
    by (simp add: fetchTransit_def handleTransitAreaPress_def fetchHouses_def)
qed

subsection \<open>C10: validation on the iOS HomeScreen\<close>

lemma js_range: "(js_lt r lo \<or> js_gt r hi) = (\<not> in_range_or_NaN r lo hi)"
  by (cases r) (auto simp: js_lt_def js_gt_def in_range_or_NaN_def)

lemma validateInputs_true_iff:
  "fst (validateInputs st) \<longleftrightarrow>
     year st \<noteq> [] \<and> month st \<noteq> [] \<and> day st \<noteq> [] \<and> hour st \<noteq> [] \<and> minute st \<noteq> []
     \<and> in_range_or_NaN (parseInt (year st)) 1900 2100
     \<and> in_range_or_NaN (parseInt (month st)) 1 12
     \<and> in_range_or_NaN (parseInt (day st)) 1 31
     \<and> in_range_or_NaN (parseInt (hour st)) 0 23
     \<and> in_range_or_NaN (parseInt (minute st)) 0 59"
  by (simp add: validateInputs_def Let_def js_range)

lemma validateInputs_alert:
  "snd (validateInputs st) = None \<longleftrightarrow> fst (validateInputs st)"
  by (simp add: validateInputs_def Let_def)

lemma handleSubmit_rejected:
  "\<not> fst (validateInputs st) \<Longrightarrow>
     requests (handleSubmit pf net st) = [] \<and> alerts (handleSubmit pf net st) \<noteq> []
     \<and> navigated (handleSubmit pf net st) = None \<and> state_after (handleSubmit pf net st) = st"
proof (cases "validateInputs st")
  case (Pair ok a)
  assume "\<not> fst (validateInputs st)"
  with Pair have ok: "ok = False" by simp
  from validateInputs_alert [of st] Pair ok have "a \<noteq> None" by simp
  with Pair ok show ?thesis
    by (auto simp add: handleSubmit_def)
qed

lemma parseInt_abcd: "parseInt ''abcd'' = None" by code_simp

lemma validateInputs_pasted_year: "validateInputs pasted_year = (True, None)"
  by (simp add: validateInputs_def pasted_year_def parseInt_abcd parseInt_6 parseInt_15
      parseInt_10 parseInt_30 js_lt_def js_gt_def)

text \<open>
  C10. \<open>handleSubmit\<close> sends the four requests exactly when \<open>validateInputs\<close> returns
  true, and a rejected input shows an alert and sends nothing (lemmas above). The
  fields are meant to be non-empty and to parse to integers in range, as the alerts
  say; but \<open>validateInputs\<close> returns true for a year that does not parse:
  \<open>parseInt\<close> gives NaN, both comparisons with the bounds are false, no alert is
  shown, and the four requests go out with \<open>year\<close> null.
\<close>

theorem C10_unparsable_year_is_accepted:
  "parseInt (year pasted_year) = None
   \<and> validateInputs pasted_year = (True, None)
   \<and> map fst (requests (handleSubmit pf net pasted_year)) =
       [''/chart/calculate'', ''/dasha/calculate'', ''/yoga/detect'', ''/interpretation/summary'']
   \<and> own_prop (snd (hd (requests (handleSubmit pf net pasted_year)))) ''year'' = JNull"
proof -
  have a: "parseInt (year pasted_year) = None" by (simp add: pasted_year_def parseInt_abcd)
  have r: "requests (handleSubmit pf net pasted_year) = home_calls (home_birthData pf pasted_year)"
    by (simp add: handleSubmit_requests validateInputs_pasted_year)
  have y: "own_prop (JSON_stringify (home_birthData pf pasted_year)) ''year'' = JNull"
    by (simp add: home_birthData_def a js_number_def)
  show ?thesis using a validateInputs_pasted_year y by (simp add: r home_calls_def)
qed

subsection \<open>C2: the response envelope in the web transit handlers\<close>

lemma get_prop_defined: "r \<noteq> JNull \<Longrightarrow> r \<noteq> JUndef \<Longrightarrow> get_prop r k = Inr (own_prop r k)"
  by (cases r) (simp_all add: get_prop_def)

lemma analyzeTransits_success:
  assumes "truthy birthData" "r \<noteq> JNull" "r \<noteq> JUndef" "truthy (own_prop r ''success'')"
  shows "analyzeTransits birthData (HttpResponse ok (Inr r)) st =
           st\<lparr>transitData := own_prop r ''data'', transit_error := JNull, transit_loading := False\<rparr>"
  using assms by (simp add: analyzeTransits_def analyze_try_def get_prop_defined)

lemma analyzeTransits_failure:
  assumes "truthy birthData" "r \<noteq> JNull" "r \<noteq> JUndef" "\<not> truthy (own_prop r ''success'')"
  shows "analyzeTransits birthData (HttpResponse ok (Inr r)) st =
           st\<lparr>transit_error := (if truthy (own_prop r ''error'') then own_prop r ''error''
                                 else JStr ''Failed to analyze transits''),
              transit_loading := False\<rparr>"
  using assms by (simp add: analyzeTransits_def analyze_try_def get_prop_defined js_or_def)

lemma analyzeTransits_thrown:
  assumes "truthy birthData"
  shows "analyzeTransits birthData (NetworkError e) st =
           st\<lparr>transit_error := JStr (''Failed to connect to server: '' @ e), transit_loading := False\<rparr>"
  using assms by (simp add: analyzeTransits_def analyze_try_def)

lemma analyzeTransits_loading:
  assumes "truthy birthData"
  shows "transit_loading (analyzeTransits birthData fetched st) = False"
  using assms by (simp add: analyzeTransits_def split: prod.split option.split)

lemma enhanced_success_stores:
  assumes "truthy birthData" "r \<noteq> JNull" "r \<noteq> JUndef" "truthy (own_prop r ''success'')"
  shows "enhancedData (analyzeTransits_enhanced birthData (HttpResponse ok (Inr r)) st) = r"
  using assms
  by (simp add: analyzeTransits_enhanced_def analyze_enhanced_try_def get_prop_defined
      split: sum.split)

lemma enhanced_success:
  assumes "truthy birthData" "r \<noteq> JNull" "r \<noteq> JUndef" "truthy (own_prop r ''success'')"
    "own_prop r ''native_data'' \<noteq> JNull" "own_prop r ''native_data'' \<noteq> JUndef"
  shows "analyzeTransits_enhanced birthData (HttpResponse ok (Inr r)) st =
           st\<lparr>enhancedData := r,
              transitData := compatible_format r (own_prop r ''native_data''),
              transit_error := JNull, transit_loading := False\<rparr>"
  using assms
  by (simp add: analyzeTransits_enhanced_def analyze_enhanced_try_def get_prop_defined)

lemma enhanced_failure:
  assumes "truthy birthData" "r \<noteq> JNull" "r \<noteq> JUndef" "\<not> truthy (own_prop r ''success'')"
  shows "analyzeTransits_enhanced birthData (HttpResponse ok (Inr r)) st =
           st\<lparr>transit_error := (if truthy (own_prop r ''error'') then own_prop r ''error''
                                 else JStr ''Failed to analyze transits''),
              transit_loading := False\<rparr>"
  using assms
  by (simp add: analyzeTransits_enhanced_def analyze_enhanced_try_def get_prop_defined js_or_def)

lemma enhanced_thrown:
  assumes "truthy birthData"
  shows "analyzeTransits_enhanced birthData (NetworkError e) st =
           st\<lparr>transit_error := JStr (''Failed to connect to server: '' @ e), transit_loading := False\<rparr>"
  using assms by (simp add: analyzeTransits_enhanced_def analyze_enhanced_try_def)

lemma enhanced_loading:
  assumes "truthy birthData"
  shows "transit_loading (analyzeTransits_enhanced birthData fetched st) = False"
  using assms by (simp add: analyzeTransits_enhanced_def split: prod.split option.split)

lemma truthy_JBool: "truthy (JBool b) = b" by simp

lemma enhanced_success_without_native_data:
  "analyzeTransits_enhanced delhi_birthData (HttpResponse True (Inr success_without_native_data))
     idle_enhanced =
   idle_enhanced\<lparr>enhancedData := success_without_native_data,
     transit_error := JStr (''Failed to connect to server: ''
        @ typeError_message ''undefined'' ''natal_moon_sign'')\<rparr>"
  by (simp add: analyzeTransits_enhanced_def analyze_enhanced_try_def get_prop_def
      success_without_native_data_def delhi_birthData_def idle_enhanced_def)

text \<open>
  C2 as stated fails on a failure envelope whose \<open>error\<close> is the empty string: the field
  is present, yet both handlers show the fallback text, not \<open>r.error\<close>.
\<close>

theorem C2_empty_error_counterexample:
  "\<not> truthy (own_prop failure_with_empty_error ''success'')
   \<and> own_prop failure_with_empty_error ''error'' \<noteq> JUndef
   \<and> transit_error (analyzeTransits delhi_birthData
        (HttpResponse True (Inr failure_with_empty_error)) idle)
       \<noteq> error_or_fallback_when_absent failure_with_empty_error
   \<and> transit_error (analyzeTransits_enhanced delhi_birthData
        (HttpResponse True (Inr failure_with_empty_error)) idle_enhanced)
       \<noteq> error_or_fallback_when_absent failure_with_empty_error"
  by (simp add: failure_with_empty_error_def error_or_fallback_when_absent_def
      analyzeTransits_def analyze_try_def analyzeTransits_enhanced_def analyze_enhanced_try_def
      get_prop_def js_or_def delhi_birthData_def)

text \<open>
  C2, amended. Let the handler have a chart (\<open>birthData\<close> truthy) and let the response
  body \<open>r\<close> be any JSON value other than null. The handlers take \<open>r\<close> as a success iff
  \<open>r.success\<close> is truthy (for a boolean: iff it is true). On success TransitAnalysis
  stores \<open>r.data\<close>; EnhancedTransitAnalysis stores \<open>r\<close> as the enhanced data and, when
  \<open>r.native_data\<close> is neither null nor absent, the record built from \<open>r\<close> as the
  transit data. Otherwise the error text becomes \<open>r.error\<close> when that is truthy (any
  non-empty string) and the fixed fallback when it is absent or falsy, and the stored
  data stay as they were. In every case, whatever was fetched (a rejection, a body that
  is not JSON, null), the handler ends with the loading flag false; a rejection leaves
  the data untouched and sets the error text to the connection message.
\<close>

theorem C2_transit_envelope:
  assumes "truthy birthData" and "r \<noteq> JNull" and "r \<noteq> JUndef"
  shows
    "(truthy (own_prop r ''success'') \<longrightarrow>
        analyzeTransits birthData (HttpResponse ok (Inr r)) st =
          st\<lparr>transitData := own_prop r ''data'', transit_error := JNull, transit_loading := False\<rparr>
        \<and> enhancedData (analyzeTransits_enhanced birthData (HttpResponse ok (Inr r)) est) = r
        \<and> (own_prop r ''native_data'' \<noteq> JNull \<and> own_prop r ''native_data'' \<noteq> JUndef \<longrightarrow>
             analyzeTransits_enhanced birthData (HttpResponse ok (Inr r)) est =
               est\<lparr>enhancedData := r,
                   transitData := compatible_format r (own_prop r ''native_data''),
                   transit_error := JNull, transit_loading := False\<rparr>))
     \<and> (\<not> truthy (own_prop r ''success'') \<longrightarrow>
        analyzeTransits birthData (HttpResponse ok (Inr r)) st =
          st\<lparr>transit_error := (if truthy (own_prop r ''error'') then own_prop r ''error''
                                else JStr ''Failed to analyze transits''),
             transit_loading := False\<rparr>
        \<and> analyzeTransits_enhanced birthData (HttpResponse ok (Inr r)) est =
          est\<lparr>transit_error := (if truthy (own_prop r ''error'') then own_prop r ''error''
                                 else JStr ''Failed to analyze transits''),
              transit_loading := False\<rparr>)
     \<and> transit_loading (analyzeTransits birthData fetched st) = False
     \<and> transit_loading (analyzeTransits_enhanced birthData fetched est) = False
     \<and> analyzeTransits birthData (NetworkError e) st =
          st\<lparr>transit_error := JStr (''Failed to connect to server: '' @ e), transit_loading := False\<rparr>
     \<and> analyzeTransits_enhanced birthData (NetworkError e) est =
          est\<lparr>transit_error := JStr (''Failed to connect to server: '' @ e), transit_loading := False\<rparr>"
  using analyzeTransits_success [OF assms] enhanced_success_stores [OF assms]
    enhanced_success [OF assms] analyzeTransits_failure [OF assms] enhanced_failure [OF assms]
    analyzeTransits_loading [OF assms(1)] enhanced_loading [OF assms(1)]
    analyzeTransits_thrown [OF assms(1)] enhanced_thrown [OF assms(1)]
  by blast

theorem C2_transit_envelope_witness:
  "analyzeTransits delhi_birthData (HttpResponse True (Inr failure_with_message)) idle =
     idle\<lparr>transit_error := JStr ''Invalid date''\<rparr>
   \<and> analyzeTransits_enhanced delhi_birthData (HttpResponse True (Inr failure_with_message))
        idle_enhanced = idle_enhanced\<lparr>transit_error := JStr ''Invalid date''\<rparr>
   \<and> analyzeTransits delhi_birthData (HttpResponse True (Inr success_with_data)) idle =
        idle\<lparr>transitData := JObj [(''analysis_results'', JArr [])]\<rparr>
   \<and> enhancedData (analyzeTransits_enhanced delhi_birthData
        (HttpResponse True (Inr success_with_data)) idle_enhanced) = success_with_data
   \<and> own_prop (transitData (analyzeTransits_enhanced delhi_birthData
        (HttpResponse True (Inr success_with_data)) idle_enhanced)) ''natal_moon_sign''
       = JStr ''Aries''"
proof -
  have b: "truthy delhi_birthData" by (simp add: delhi_birthData_def)
  have f: "failure_with_message \<noteq> JNull" "failure_with_message \<noteq> JUndef"
    "\<not> truthy (own_prop failure_with_message ''success'')"
    "own_prop failure_with_message ''error'' = JStr ''Invalid date''"
    by (simp_all add: failure_with_message_def)
  have s: "success_with_data \<noteq> JNull" "success_with_data \<noteq> JUndef"
    "truthy (own_prop success_with_data ''success'')"
    "own_prop success_with_data ''data'' = JObj [(''analysis_results'', JArr [])]"
    "own_prop success_with_data ''native_data'' = JObj [(''natal_moon_sign'', JStr ''Aries'')]"
    by (simp_all add: success_with_data_def)
  note wf = C2_transit_envelope [OF b f(1) f(2), where st = idle and ok = True and est = idle_enhanced]
  note ws = C2_transit_envelope [OF b s(1) s(2), where st = idle and ok = True and est = idle_enhanced]
  from wf f(3) f(4) have 1:
    "analyzeTransits delhi_birthData (HttpResponse True (Inr failure_with_message)) idle =
       idle\<lparr>transit_error := JStr ''Invalid date''\<rparr>"
    "analyzeTransits_enhanced delhi_birthData (HttpResponse True (Inr failure_with_message))
        idle_enhanced = idle_enhanced\<lparr>transit_error := JStr ''Invalid date''\<rparr>"
    by (simp_all add: idle_def idle_enhanced_def)
  from ws s(3) s(4) s(5) have 2:
    "analyzeTransits delhi_birthData (HttpResponse True (Inr success_with_data)) idle =
        idle\<lparr>transitData := JObj [(''analysis_results'', JArr [])]\<rparr>"
    "enhancedData (analyzeTransits_enhanced delhi_birthData
        (HttpResponse True (Inr success_with_data)) idle_enhanced) = success_with_data"
    "own_prop (transitData (analyzeTransits_enhanced delhi_birthData
        (HttpResponse True (Inr success_with_data)) idle_enhanced)) ''natal_moon_sign''
       = JStr ''Aries''"
    by (simp_all add: idle_def idle_enhanced_def compatible_format_def)
  from 1 2 show ?thesis by blast
qed

subsection \<open>C4: the records drawn by YogaList\<close>

lemma filter_present_records:
  "list_all (\<lambda>r. r \<noteq> JNull \<and> r \<noteq> JUndef) ys \<Longrightarrow>
   filter_present ys = Inr (filter shown_as_present ys)"
  by (induction ys) (simp_all add: get_prop_defined shown_as_present_def)

lemma flat_arrays:
  "list_all Array_isArray vs \<Longrightarrow> flat vs = concat (map elements vs)"
proof (induction vs)
  case Nil
  show ?case by (simp add: flat_def)
next
  case (Cons v vs)
  then show ?case by (cases v) (simp_all add: flat_def)
qed

lemma list_all_clearjunk:
  "list_all P kvs \<Longrightarrow> list_all P (AList.clearjunk kvs)"
proof -
  assume "list_all P kvs"
  moreover have "set (AList.clearjunk kvs) \<subseteq> set kvs"
    using graph_map_of [of kvs] by (auto simp: Map.graph_def dest: map_of_SomeD)
  ultimately show ?thesis by (auto simp: list_all_iff)
qed

lemma truthy_array: "Array_isArray v \<Longrightarrow> truthy v"
  by (cases v) simp_all

lemma yogaList_of_described:
  assumes "Array_isArray (own_prop y ''all_yogas'') \<or> Array_isArray (own_prop y ''detected_yogas'')
        \<or> Array_isArray y
        \<or> (case own_prop y ''yogas'' of
              JArr xs \<Rightarrow> False
            | JObj kvs \<Rightarrow> list_all (\<lambda>kv. Array_isArray (snd kv)) kvs
            | _ \<Rightarrow> True)"
  shows "yogaList_of y = described_source y"
proof (cases "Array_isArray (own_prop y ''all_yogas'')")
  case True
  then show ?thesis
    by (cases "own_prop y ''all_yogas''") (simp_all add: yogaList_of_def described_source_def)
next
  case a: False
  show ?thesis
  proof (cases "Array_isArray (own_prop y ''detected_yogas'')")
    case True
    with a show ?thesis
      by (cases "own_prop y ''all_yogas''"; cases "own_prop y ''detected_yogas''")
        (simp_all add: yogaList_of_def described_source_def)
  next
    case d: False
    have step: "yogaList_of y =
        (if Array_isArray y then elements y
         else if truthy (own_prop y ''yogas'') \<and> typeof_object (own_prop y ''yogas'')
           then flat (Object_values (own_prop y ''yogas'')) else [])"
      using a d by (simp add: yogaList_of_def)
    have dstep: "described_source y =
        (case y of JArr xs \<Rightarrow> xs
         | _ \<Rightarrow> (case own_prop y ''yogas'' of
                 JObj kvs \<Rightarrow> concat (map (\<lambda>kv. elements (snd kv)) (AList.clearjunk kvs))
               | _ \<Rightarrow> []))"
      using a d
      by (cases "own_prop y ''all_yogas''"; cases "own_prop y ''detected_yogas''")
        (simp_all add: described_source_def)
    show ?thesis
    proof (cases "Array_isArray y")
      case True
      then show ?thesis unfolding step dstep by (cases y) simp_all
    next
      case False
      then have dd: "described_source y =
          (case own_prop y ''yogas'' of
                 JObj kvs \<Rightarrow> concat (map (\<lambda>kv. elements (snd kv)) (AList.clearjunk kvs))
               | _ \<Rightarrow> [])"
        unfolding dstep by (cases y) simp_all
      from assms a d False have dict: "case own_prop y ''yogas'' of
              JArr xs \<Rightarrow> False
            | JObj kvs \<Rightarrow> list_all (\<lambda>kv. Array_isArray (snd kv)) kvs
            | _ \<Rightarrow> True"
        by simp
      show ?thesis
      proof (cases "own_prop y ''yogas''")
        case (JObj kvs)
        with dict have "list_all (\<lambda>kv. Array_isArray (snd kv)) kvs" by simp
        then have "list_all (\<lambda>kv. Array_isArray (snd kv)) (AList.clearjunk kvs)"
          by (rule list_all_clearjunk)
        then have "list_all Array_isArray (map snd (AList.clearjunk kvs))"
          by (simp add: list_all_iff)
        then have "flat (map snd (AList.clearjunk kvs))
            = concat (map elements (map snd (AList.clearjunk kvs)))"
          by (rule flat_arrays)
        with False JObj show ?thesis
          unfolding step dd by (simp add: comp_def)
      next
        case (JArr xs)
        with dict show ?thesis by simp
      qed (use False in \<open>simp_all add: step dd flat_def\<close>)
    qed
  qed
qed

lemma described_source_falsy: "\<not> truthy y \<Longrightarrow> described_source y = []"
  by (cases y) (simp_all add: described_source_def)

lemma YogaList_described:
  assumes "yoga_payload y"
  shows "YogaList y =
           Inr (if \<not> truthy y then RenderNull
                else if filter shown_as_present (described_source y) = [] then NoYogas
                else Cards (map yoga_card_of (filter shown_as_present (described_source y))))"
proof -
  from assms have src: "yogaList_of y = described_source y"
    by (intro yogaList_of_described) (simp add: yoga_payload_def)
  from assms have "list_all (\<lambda>r. r \<noteq> JNull \<and> r \<noteq> JUndef) (described_source y)"
    by (simp add: yoga_payload_def)
  then have "filter_present (described_source y) = Inr (filter shown_as_present (described_source y))"
    by (rule filter_present_records)
  then show ?thesis by (simp add: YogaList_def src)
qed

lemma YogaList_cards:
  assumes "yoga_payload y"
  shows "\<exists>shown. YogaList y = Inr shown
           \<and> cards_of shown = map yoga_card_of (filter shown_as_present (described_source y))"
  using YogaList_described [OF assms] described_source_falsy [of y] by simp

lemma all_yogas_shape:
  "described_source (JObj [(''all_yogas'', JArr xs)]) = xs"
  by (simp add: described_source_def)

lemma yogas_shape:
  assumes "length cats = length groups" and "distinct cats"
  shows "described_source (JObj [(''yogas'', JObj (zip cats (map JArr groups)))]) = concat groups"
proof -
  from assms have d: "distinct (map fst (zip cats (map JArr groups)))" by simp
  have "map (\<lambda>kv. elements (snd kv)) (zip cats (map JArr groups)) = groups"
    using assms(1) by (induction cats groups rule: list_induct2) simp_all
  then show ?thesis
    by (simp add: described_source_def distinct_clearjunk_id [OF d])
qed

lemma yogas_shape_payload:
  assumes "length cats = length groups" and "distinct cats"
    and "list_all (\<lambda>r. r \<noteq> JNull \<and> r \<noteq> JUndef) (concat groups)"
  shows "yoga_payload (JObj [(''yogas'', JObj (zip cats (map JArr groups)))])"
proof -
  have "list_all (\<lambda>kv. Array_isArray (snd kv)) (zip cats (map JArr groups))"
    using assms(1) by (induction cats groups rule: list_induct2) simp_all
  then show ?thesis
    unfolding yoga_payload_def yogas_shape [OF assms(1,2)]
    using assms(3) by simp
qed

lemma all_yogas_shape_payload:
  assumes "list_all (\<lambda>r. r \<noteq> JNull \<and> r \<noteq> JUndef) xs"
  shows "yoga_payload (JObj [(''all_yogas'', JArr xs)])"
  unfolding yoga_payload_def all_yogas_shape using assms by simp

lemma shapes_agree:
  assumes "length cats = length groups" and "distinct cats"
    and "list_all (\<lambda>r. r \<noteq> JNull \<and> r \<noteq> JUndef) (concat groups)"
  shows "YogaList (JObj [(''all_yogas'', JArr (concat groups))]) =
         YogaList (JObj [(''yogas'', JObj (zip cats (map JArr groups)))])"
  unfolding YogaList_described [OF all_yogas_shape_payload [OF assms(3)]]
    YogaList_described [OF yogas_shape_payload [OF assms]]
    all_yogas_shape yogas_shape [OF assms(1,2)]
  by simp

lemma absent_is_present_shown:
  assumes "own_prop r ''is_present'' = JUndef" and "r \<noteq> JNull" and "r \<noteq> JUndef"
  shows "YogaList (JObj [(''all_yogas'', JArr [r])]) = Inr (Cards [yoga_card_of r])"
proof -
  have p: "yoga_payload (JObj [(''all_yogas'', JArr [r])])"
    by (rule all_yogas_shape_payload) (simp add: assms)
  show ?thesis
    unfolding YogaList_described [OF p] all_yogas_shape
    by (simp add: shown_as_present_def assms(1))
qed

text \<open>
  C4. For every payload \<open>y\<close> of the documented shapes, \<open>YogaList\<close> draws exactly the
  records \<open>r\<close> with \<open>r.is_present !== false\<close>, in order, taken from \<open>y.all_yogas\<close> when
  that is an array, otherwise from \<open>y.detected_yogas\<close> when that is an array, otherwise
  from \<open>y\<close> itself when it is an array, otherwise from the lists of the dictionary
  \<open>y.yogas\<close> one after the other (nothing at all for a null payload, the empty box when
  no record is left). Hence the shape \<open>{all_yogas: [...]}\<close> and the shape
  \<open>{yogas: {category: [...]}}\<close> with the same records are drawn alike, and a record
  without an \<open>is_present\<close> field is drawn.
\<close>

theorem C4_YogaList_renders_present_records:
  "(yoga_payload y \<longrightarrow>
      YogaList y =
        Inr (if \<not> truthy y then RenderNull
             else if filter shown_as_present (described_source y) = [] then NoYogas
             else Cards (map yoga_card_of (filter shown_as_present (described_source y)))))
   \<and> (length cats = length groups \<and> distinct cats
        \<and> list_all (\<lambda>r. r \<noteq> JNull \<and> r \<noteq> JUndef) (concat groups) \<longrightarrow>
      YogaList (JObj [(''all_yogas'', JArr (concat groups))]) =
      YogaList (JObj [(''yogas'', JObj (zip cats (map JArr groups)))]))
   \<and> (own_prop r ''is_present'' = JUndef \<and> r \<noteq> JNull \<and> r \<noteq> JUndef \<longrightarrow>
      YogaList (JObj [(''all_yogas'', JArr [r])]) = Inr (Cards [yoga_card_of r]))"
  using YogaList_described [of y] shapes_agree [of cats groups] absent_is_present_shown [of r]
  by blast

theorem C4_YogaList_renders_present_records_witness:
  "YogaList (JObj [(''all_yogas'', JArr [raj_yoga, absent_yoga, dhana_yoga])]) =
     Inr (Cards [yoga_card_of raj_yoga, yoga_card_of dhana_yoga])
   \<and> YogaList (JObj [(''yogas'', JObj [(''raja'', JArr [raj_yoga, absent_yoga]),
                                        (''dhana'', JArr [dhana_yoga])])]) =
     Inr (Cards [yoga_card_of raj_yoga, yoga_card_of dhana_yoga])
   \<and> YogaList (JObj [(''all_yogas'', JArr [raj_yoga])]) = Inr (Cards [yoga_card_of raj_yoga])"
proof -
  let ?a = "JObj [(''all_yogas'', JArr [raj_yoga, absent_yoga, dhana_yoga])]"
  let ?d = "JObj [(''yogas'', JObj [(''raja'', JArr [raj_yoga, absent_yoga]),
                                    (''dhana'', JArr [dhana_yoga])])]"
  have sa: "described_source ?a = [raj_yoga, absent_yoga, dhana_yoga]"
    by (simp add: described_source_def)
  have sd: "described_source ?d = [raj_yoga, absent_yoga, dhana_yoga]"
    by (simp add: described_source_def)
  have nn: "raj_yoga \<noteq> JNull" "raj_yoga \<noteq> JUndef" "absent_yoga \<noteq> JNull"
    "absent_yoga \<noteq> JUndef" "dhana_yoga \<noteq> JNull" "dhana_yoga \<noteq> JUndef"
    by (simp_all add: raj_yoga_def absent_yoga_def dhana_yoga_def)
  have pa: "yoga_payload ?a" unfolding yoga_payload_def sa by (simp add: nn)
  have pd: "yoga_payload ?d" unfolding yoga_payload_def sd by (simp add: nn)
  have f: "shown_as_present raj_yoga" "\<not> shown_as_present absent_yoga"
    "shown_as_present dhana_yoga"
    by (simp_all add: shown_as_present_def raj_yoga_def absent_yoga_def dhana_yoga_def)
  have u: "own_prop raj_yoga ''is_present'' = JUndef" by (simp add: raj_yoga_def)
  from C4_YogaList_renders_present_records [of ?a "[]" "[]" raj_yoga] pa u nn
  have 1: "YogaList ?a = Inr (Cards [yoga_card_of raj_yoga, yoga_card_of dhana_yoga])"
    and 3: "YogaList (JObj [(''all_yogas'', JArr [raj_yoga])]) = Inr (Cards [yoga_card_of raj_yoga])"
    by (simp_all add: sa f)
  from C4_YogaList_renders_present_records [of ?d "[]" "[]" raj_yoga] pd
  have 2: "YogaList ?d = Inr (Cards [yoga_card_of raj_yoga, yoga_card_of dhana_yoga])"
    by (simp add: sd f)
  from 1 2 3 show ?thesis by blast
qed

subsection \<open>C3: final status, obstruction and score sign\<close>

lemma no_status_for_unobstructed_zero:
  "score res = 0 \<Longrightarrow> \<not> isObstructed (vedhaInfo res) \<Longrightarrow> \<not> status_follows_sign res"
  by (cases "finalStatus res") (simp_all add: status_follows_sign_def)

text \<open>
  C3 as stated fails for a result that is not obstructed and scores zero: no status at
  all satisfies it there (lemma above), whatever the engine answers.
\<close>

theorem C3_zero_score_counterexample:
  "\<not> status_follows_sign (evaluate_transit ''Jupiter'' [(1, 1), (1, - 1)] no_vedha)"
  by (simp add: status_follows_sign_def evaluate_transit_def weighted_score_def status_of_def
      no_vedha_def)

text \<open>
  C3, amended. For every transit evaluation the final status is Obstructed if and only
  if \<open>vedha.isObstructed\<close> is true; and whenever it is false and the score is not zero,
  the final status is Good exactly when the score is positive and Bad exactly when it
  is negative.
\<close>

theorem C3_final_status:
  "(finalStatus (evaluate_transit p layers v) = Obstructed
      \<longleftrightarrow> isObstructed (vedhaInfo (evaluate_transit p layers v)))
   \<and> (\<not> isObstructed (vedhaInfo (evaluate_transit p layers v))
        \<and> score (evaluate_transit p layers v) \<noteq> 0 \<longrightarrow>
       (finalStatus (evaluate_transit p layers v) = Good
          \<longleftrightarrow> 0 < score (evaluate_transit p layers v))
       \<and> (finalStatus (evaluate_transit p layers v) = Bad
          \<longleftrightarrow> score (evaluate_transit p layers v) < 0))"
  by (auto simp add: evaluate_transit_def status_of_def)

theorem C3_final_status_witness:
  "finalStatus (evaluate_transit ''Jupiter'' [(2, 1), (1, - 1)] no_vedha) = Good
   \<and> score (evaluate_transit ''Jupiter'' [(2, 1), (1, - 1)] no_vedha) = 1
   \<and> finalStatus (evaluate_transit ''Mars'' [(1, 1), (3, - 1)] no_vedha) = Bad
   \<and> finalStatus (evaluate_transit ''Venus'' [(2, 1)] vedha_by_saturn) = Obstructed"
proof -
  have s: "score (evaluate_transit ''Jupiter'' [(2, 1), (1, - 1)] no_vedha) = 1"
    "score (evaluate_transit ''Mars'' [(1, 1), (3, - 1)] no_vedha) = - 2"
    "\<not> isObstructed (vedhaInfo (evaluate_transit ''Jupiter'' [(2, 1), (1, - 1)] no_vedha))"
    "\<not> isObstructed (vedhaInfo (evaluate_transit ''Mars'' [(1, 1), (3, - 1)] no_vedha))"
    "isObstructed (vedhaInfo (evaluate_transit ''Venus'' [(2, 1)] vedha_by_saturn))"
    by (simp_all add: evaluate_transit_def weighted_score_def no_vedha_def vedha_by_saturn_def)
  from C3_final_status [of "''Jupiter''" "[(2, 1), (1, - 1)]" no_vedha]
    C3_final_status [of "''Mars''" "[(1, 1), (3, - 1)]" no_vedha]
    C3_final_status [of "''Venus''" "[(2, 1)]" vedha_by_saturn] s
  show ?thesis by simp
qed

subsection \<open>C5: best and challenging months\<close>

lemma peak_ge: "x \<in> set xs \<Longrightarrow> x \<le> peak xs"
  by (induction xs rule: peak.induct) auto

lemma peak_mem: "xs \<noteq> [] \<Longrightarrow> peak xs \<in> set xs"
  by (induction xs rule: peak.induct) (auto simp: max_def)

lemma lowest_le: "x \<in> set xs \<Longrightarrow> lowest xs \<le> x"
  by (induction xs rule: lowest.induct) auto

lemma lowest_mem: "xs \<noteq> [] \<Longrightarrow> lowest xs \<in> set xs"
  by (induction xs rule: lowest.induct) (auto simp: min_def)

lemma takeWhile_stops: "v \<in> set xs \<Longrightarrow> length (takeWhile (\<lambda>s. s \<noteq> v) xs) < length xs"
  by (induction xs) auto

lemma first_position_found:
  assumes "v \<in> set scores"
  shows "1 \<le> first_position v scores"
    and "first_position v scores \<le> int (length scores)"
    and "scores ! nat (first_position v scores - 1) = v"
    and "\<And>k. 1 \<le> k \<Longrightarrow> k < first_position v scores \<Longrightarrow> scores ! nat (k - 1) \<noteq> v"
proof -
  let ?n = "length (takeWhile (\<lambda>s. s \<noteq> v) scores)"
  have lt: "?n < length scores"
    using assms by (rule takeWhile_stops)
  show "1 \<le> first_position v scores" by (simp add: first_position_def)
  show "first_position v scores \<le> int (length scores)"
    using lt by (simp add: first_position_def)
  show "scores ! nat (first_position v scores - 1) = v"
    using nth_length_takeWhile [OF lt] by (simp add: first_position_def)
  fix k :: int
  assume "1 \<le> k" "k < first_position v scores"
  then have "nat (k - 1) < ?n" by (simp add: first_position_def)
  then have "takeWhile (\<lambda>s. s \<noteq> v) scores ! nat (k - 1) \<in> set (takeWhile (\<lambda>s. s \<noteq> v) scores)"
    by (rule nth_mem)
  moreover have "takeWhile (\<lambda>s. s \<noteq> v) scores ! nat (k - 1) = scores ! nat (k - 1)"
    using \<open>nat (k - 1) < ?n\<close> by (rule takeWhile_nth)
  ultimately show "scores ! nat (k - 1) \<noteq> v"
    using set_takeWhileD by fastforce
qed

lemma month_at_in_range:
  "1 \<le> m \<Longrightarrow> m \<le> int (length monthly_data) \<Longrightarrow>
   month_at monthly_data m = Some (monthly_data ! nat (m - 1))"
  by (simp add: month_at_def)

lemma score_nth:
  "1 \<le> m \<Longrightarrow> m \<le> int (length monthly_data) \<Longrightarrow>
   normalizedScore (monthly_data ! nat (m - 1)) = map normalizedScore monthly_data ! nat (m - 1)"
  by (simp add: nat_less_iff)

lemma best_month_is_first_peak:
  assumes "monthly_data \<noteq> []" and "m \<in> set (best_months monthly_data)"
  shows "\<exists>p. month_at monthly_data m = Some p
          \<and> (\<forall>q\<in>set monthly_data. normalizedScore q \<le> normalizedScore p)
          \<and> (\<forall>k. 1 \<le> k \<and> k < m \<longrightarrow>
                (\<exists>q. month_at monthly_data k = Some q \<and> normalizedScore q < normalizedScore p))"
proof -
  let ?scores = "map normalizedScore monthly_data"
  let ?v = "peak ?scores"
  from assms have m: "m = first_position ?v ?scores" by (simp add: best_months_def)
  from assms(1) have mem: "?v \<in> set ?scores" by (intro peak_mem) simp
  note fp = first_position_found [OF mem]
  have r: "1 \<le> m" "m \<le> int (length monthly_data)"
    using fp(1) fp(2) by (simp_all add: m)
  let ?p = "monthly_data ! nat (m - 1)"
  have at: "month_at monthly_data m = Some ?p" using r by (rule month_at_in_range)
  have sp: "normalizedScore ?p = ?v"
    using fp(3) score_nth [OF r] by (simp add: m)
  have top: "\<forall>q\<in>set monthly_data. normalizedScore q \<le> normalizedScore ?p"
    unfolding sp by (auto intro: peak_ge)
  have early: "\<exists>q. month_at monthly_data k = Some q \<and> normalizedScore q < normalizedScore ?p"
    if k: "1 \<le> k \<and> k < m" for k
  proof -
    from k r have kr: "1 \<le> k" "k \<le> int (length monthly_data)" by simp_all
    have ne: "normalizedScore (monthly_data ! nat (k - 1)) \<noteq> ?v"
      using fp(4) [of k] k score_nth [OF kr] by (simp add: m)
    have "monthly_data ! nat (k - 1) \<in> set monthly_data"
      using kr by (intro nth_mem) (simp add: nat_less_iff)
    then have "normalizedScore (monthly_data ! nat (k - 1)) \<le> ?v"
      by (auto intro: peak_ge)
    with ne have "normalizedScore (monthly_data ! nat (k - 1)) < normalizedScore ?p"
      unfolding sp by simp
    with month_at_in_range [OF kr] show ?thesis by blast
  qed
  from at top early show ?thesis by blast
qed

lemma challenging_month_is_first_lowest:
  assumes "monthly_data \<noteq> []" and "m \<in> set (challenging_months monthly_data)"
  shows "\<exists>p. month_at monthly_data m = Some p
          \<and> (\<forall>q\<in>set monthly_data. normalizedScore p \<le> normalizedScore q)
          \<and> (\<forall>k. 1 \<le> k \<and> k < m \<longrightarrow>
                (\<exists>q. month_at monthly_data k = Some q \<and> normalizedScore p < normalizedScore q))"
proof -
  let ?scores = "map normalizedScore monthly_data"
  let ?v = "lowest ?scores"
  from assms have m: "m = first_position ?v ?scores" by (simp add: challenging_months_def)
  from assms(1) have mem: "?v \<in> set ?scores" by (intro lowest_mem) simp
  note fp = first_position_found [OF mem]
  have r: "1 \<le> m" "m \<le> int (length monthly_data)"
    using fp(1) fp(2) by (simp_all add: m)
  let ?p = "monthly_data ! nat (m - 1)"
  have at: "month_at monthly_data m = Some ?p" using r by (rule month_at_in_range)
  have sp: "normalizedScore ?p = ?v"
    using fp(3) score_nth [OF r] by (simp add: m)
  have bottom: "\<forall>q\<in>set monthly_data. normalizedScore ?p \<le> normalizedScore q"
    unfolding sp by (auto intro: lowest_le)
  have early: "\<exists>q. month_at monthly_data k = Some q \<and> normalizedScore ?p < normalizedScore q"
    if k: "1 \<le> k \<and> k < m" for k
  proof -
    from k r have kr: "1 \<le> k" "k \<le> int (length monthly_data)" by simp_all
    have ne: "normalizedScore (monthly_data ! nat (k - 1)) \<noteq> ?v"
      using fp(4) [of k] k score_nth [OF kr] by (simp add: m)
    have "monthly_data ! nat (k - 1) \<in> set monthly_data"
      using kr by (intro nth_mem) (simp add: nat_less_iff)
    then have "?v \<le> normalizedScore (monthly_data ! nat (k - 1))"
      by (auto intro: lowest_le)
    with ne have "normalizedScore ?p < normalizedScore (monthly_data ! nat (k - 1))"
      unfolding sp by simp
    with month_at_in_range [OF kr] show ?thesis by blast
  qed
  from at bottom early show ?thesis by blast
qed

text \<open>
  C5. For every timeline of 12 points, \<open>best_months\<close> and \<open>challenging_months\<close> are not
  empty, and every number \<open>m\<close> they list is a position counted from 1 at which the web
  client's \<open>monthly_data[m-1]\<close> finds a month whose normalized score is the largest
  (respectively the smallest) of all, every earlier month scoring strictly less
  (respectively more): the earliest month wins a tie.
\<close>

theorem C5_best_and_challenging_months:
  assumes "length monthly_data = 12"
  shows "best_months monthly_data \<noteq> [] \<and> challenging_months monthly_data \<noteq> []
    \<and> (\<forall>m\<in>set (best_months monthly_data).
          \<exists>p. month_at monthly_data m = Some p
            \<and> (\<forall>q\<in>set monthly_data. normalizedScore q \<le> normalizedScore p)
            \<and> (\<forall>k. 1 \<le> k \<and> k < m \<longrightarrow>
                  (\<exists>q. month_at monthly_data k = Some q
                        \<and> normalizedScore q < normalizedScore p)))
    \<and> (\<forall>m\<in>set (challenging_months monthly_data).
          \<exists>p. month_at monthly_data m = Some p
            \<and> (\<forall>q\<in>set monthly_data. normalizedScore p \<le> normalizedScore q)
            \<and> (\<forall>k. 1 \<le> k \<and> k < m \<longrightarrow>
                  (\<exists>q. month_at monthly_data k = Some q
                        \<and> normalizedScore p < normalizedScore q)))"
proof -
  from assms have ne: "monthly_data \<noteq> []" by auto
  from ne have "best_months monthly_data \<noteq> []" "challenging_months monthly_data \<noteq> []"
    by (simp_all add: best_months_def challenging_months_def)
  with best_month_is_first_peak [OF ne] challenging_month_is_first_lowest [OF ne]
  show ?thesis by blast
qed

lemma best_months_2024: "best_months year_2024 = [2]"
  by (simp add: best_months_def year_2024_def first_position_def)

lemma challenging_months_2024: "challenging_months year_2024 = [6]"
  by (simp add: challenging_months_def year_2024_def first_position_def)

theorem C5_best_and_challenging_months_witness:
  "length year_2024 = 12
   \<and> best_months year_2024 = [2] \<and> month_label year_2024 2 = Inr ''Feb''
   \<and> challenging_months year_2024 = [6] \<and> month_label year_2024 6 = Inr ''Jun''
   \<and> (\<exists>p. month_at year_2024 2 = Some p \<and> normalizedScore p = 72)
   \<and> (\<exists>p. month_at year_2024 6 = Some p \<and> normalizedScore p = 28)"
proof -
  have l: "length year_2024 = 12" by (simp add: year_2024_def)
  note c = C5_best_and_challenging_months [OF l]
  have a: "month_at year_2024 2 =
      Some \<lparr>point_month = ''February'', point_year = 2024, normalizedScore = 72\<rparr>"
    "month_at year_2024 6 =
      Some \<lparr>point_month = ''June'', point_year = 2024, normalizedScore = 28\<rparr>"
    by (simp_all add: month_at_def year_2024_def)
  have lab: "month_label year_2024 2 = Inr ''Feb''" "month_label year_2024 6 = Inr ''Jun''"
    by (simp_all add: month_label_def a)
  from c l best_months_2024 challenging_months_2024 a lab show ?thesis by simp
qed

subsection \<open>C6: mahadashas and antardashas\<close>

lemma cycle_from_length: "length (cycle_from g) = 9"
  by (simp add: cycle_from_def eval_nat_numeral)

lemma cycle_from_years: "sum_list (map dasha_years (cycle_from g)) = 120"
  by (cases g) (simp_all add: cycle_from_def eval_nat_numeral)

lemma dasha_years_positive: "0 < dasha_years g"
  by (cases g) simp_all

lemma lay_out_length: "length (lay_out sub t gds) = length gds"
  by (induction gds arbitrary: t) simp_all

lemma lay_out_durations: "map durationYears (lay_out sub t gds) = map snd gds"
  by (induction gds arbitrary: t) simp_all

lemma lay_out_lords: "map lord (lay_out sub t gds) = map fst gds"
  by (induction gds arbitrary: t) simp_all

lemma lay_out_start: "gds \<noteq> [] \<Longrightarrow> startDate (hd (lay_out sub t gds)) = t"
  by (cases gds) simp_all

lemma lay_out_end: "gds \<noteq> [] \<Longrightarrow> endDate (last (lay_out sub t gds)) = t + sum_list (map snd gds)"
proof (induction gds arbitrary: t)
  case Nil
  then show ?case by simp
next
  case (Cons gd rest)
  show ?case
  proof (cases rest)
    case Nil
    then show ?thesis by simp
  next
    case (Cons gd' rest')
    then have "rest \<noteq> []" by simp
    from Cons.IH [OF this, of "t + snd gd"] Cons show ?thesis
      by (simp add: lay_out_length add.assoc)
  qed
qed

lemma lay_out_contiguous: "contiguous (lay_out sub t gds)"
proof (induction gds arbitrary: t)
  case Nil
  show ?case by simp
next
  case (Cons gd rest)
  show ?case
  proof (cases rest)
    case Nil
    then show ?thesis by simp
  next
    case (Cons gd' rest')
    with Cons.IH [of "t + snd gd"] show ?thesis by simp
  qed
qed

lemma lay_out_each:
  "list_all (\<lambda>gd. 0 < snd gd) gds \<Longrightarrow>
   list_all (\<lambda>p. 0 < durationYears p \<and> endDate p = startDate p + durationYears p)
     (lay_out sub t gds)"
  by (induction gds arbitrary: t) simp_all

lemma lay_out_partitions:
  "gds \<noteq> [] \<Longrightarrow> list_all (\<lambda>gd. 0 < snd gd) gds \<Longrightarrow>
   partitions (lay_out sub t gds) t (t + sum_list (map snd gds))"
  unfolding partitions_def
  using lay_out_length [of sub t gds]
  by (auto simp: lay_out_start lay_out_end lay_out_contiguous lay_out_each)

lemma lay_out_member:
  "list_all (\<lambda>gd. 0 < snd gd) gds \<Longrightarrow> p \<in> set (lay_out sub t gds) \<Longrightarrow>
   antardashas p = sub (lord p) (startDate p) (durationYears p)
   \<and> endDate p = startDate p + durationYears p
   \<and> durationYears p \<in> snd ` set gds
   \<and> t \<le> startDate p \<and> endDate p \<le> t + sum_list (map snd gds)"
proof (induction gds arbitrary: t)
  case Nil
  then show ?case by simp
next
  case (Cons gd rest)
  from Cons.prems(1) have pos: "0 < snd gd" and rest: "list_all (\<lambda>gd. 0 < snd gd) rest"
    by simp_all
  have nn: "0 \<le> sum_list (map snd rest)"
    using rest by (induction rest) auto
  from Cons.prems(2) consider
    "p = DashaPeriod (fst gd) t (t + snd gd) (snd gd) (sub (fst gd) t (snd gd))"
    | "p \<in> set (lay_out sub (t + snd gd) rest)" by auto
  then show ?case
  proof cases
    case 1
    with nn show ?thesis by simp
  next
    case 2
    from Cons.IH [OF rest 2] pos show ?thesis by auto
  qed
qed

lemma antardasha_years:
  "sum_list (map snd (map (\<lambda>h. (h, years * dasha_years h / 120)) (cycle_from g))) = years"
proof -
  have "sum_list (map snd (map (\<lambda>h. (h, years * dasha_years h / 120)) (cycle_from g)))
        = sum_list (map (\<lambda>h. (years / 120) * dasha_years h) (cycle_from g))"
    by (simp add: comp_def)
  also have "\<dots> = (years / 120) * sum_list (map dasha_years (cycle_from g))"
    by (rule sum_list_const_mult)
  finally show ?thesis by (simp add: cycle_from_years)
qed

lemma cycle_from_nonempty: "cycle_from g \<noteq> []"
  using cycle_from_length [of g] by auto

lemma antardashas_of_partitions:
  assumes "0 < years"
  shows "partitions (antardashas_of g start years) start (start + years)"
proof -
  let ?gds = "map (\<lambda>h. (h, years * dasha_years h / 120)) (cycle_from g)"
  have ne: "?gds \<noteq> []" using cycle_from_nonempty by simp
  have pos: "list_all (\<lambda>gd. 0 < snd gd) ?gds"
    using assms by (simp add: list_all_iff dasha_years_positive)
  from lay_out_partitions [OF ne pos, of "\<lambda>h t d. []" start]
  show ?thesis unfolding antardashas_of_def antardasha_years .
qed

lemma antardashas_of_years:
  "sum_list (map durationYears (antardashas_of g start years)) = years"
  unfolding antardashas_of_def lay_out_durations by (rule antardasha_years)

lemma antardashas_of_within:
  assumes "0 < years" and "a \<in> set (antardashas_of g start years)"
  shows "start \<le> startDate a \<and> endDate a \<le> start + years"
proof -
  let ?gds = "map (\<lambda>h. (h, years * dasha_years h / 120)) (cycle_from g)"
  have pos: "list_all (\<lambda>gd. 0 < snd gd) ?gds"
    using assms(1) by (simp add: list_all_iff dasha_years_positive)
  from lay_out_member [OF pos assms(2) [unfolded antardashas_of_def]]
  show ?thesis unfolding antardasha_years by simp
qed

lemma mahadasha_catalog:
  "sum_list (map snd (map (\<lambda>h. (h, dasha_years h)) (cycle_from g))) = 120"
  by (simp add: comp_def cycle_from_years)

lemma mahadasha_catalog_positive:
  "list_all (\<lambda>gd. 0 < snd gd) (map (\<lambda>h. (h, dasha_years h)) (cycle_from g))"
  by (simp add: list_all_iff dasha_years_positive)

lemma mahadashas_antardashas:
  assumes "m \<in> set (mahadashas birth g span_remaining span_total)"
  shows "partitions (antardashas m) (startDate m) (endDate m)
    \<and> \<bar>sum_list (map durationYears (antardashas m)) - durationYears m\<bar> \<le> 1 / 1000000
    \<and> (\<forall>a\<in>set (antardashas m). startDate m \<le> startDate a \<and> endDate a \<le> endDate m)"
proof -
  note mem = lay_out_member [OF mahadasha_catalog_positive assms [unfolded mahadashas_def]]
  from mem have sub: "antardashas m = antardashas_of (lord m) (startDate m) (durationYears m)"
    and e: "endDate m = startDate m + durationYears m" by simp_all
  from mem have "durationYears m \<in> dasha_years ` set (cycle_from g)" by (auto simp: image_iff)
  then have pos: "0 < durationYears m" using dasha_years_positive by auto
  show ?thesis
    unfolding sub e
    using antardashas_of_partitions [OF pos] antardashas_of_within [OF pos]
    by (simp add: antardashas_of_years)
qed

lemma coverage_after_birth:
  "endDate (last (mahadashas birth g span_remaining span_total)) - birth
     = 120 - (dasha_years g - balance_of_first_dasha g span_remaining span_total)"
proof -
  have ne: "map (\<lambda>h. (h, dasha_years h)) (cycle_from g) \<noteq> []"
    using cycle_from_nonempty by simp
  show ?thesis
    unfolding mahadashas_def lay_out_end [OF ne] mahadasha_catalog by simp
qed

text \<open>
  C6. For every birth input (birth date, birth lord, position of the Moon in its
  nakshatra) the engine returns nine mahadashas whose durations sum to exactly 120
  years and which partition the 120 years from the start of the birth dasha, the birth
  dasha ending one balance after birth; and the antardashas of every mahadasha
  partition the parent's date range (contiguous, each of positive length, none outside
  the parent) with durations that sum to the parent's duration, within 1e-6.
\<close>

theorem C6_dasha_periods_partition:
  "length (mahadashas birth g span_remaining span_total) = 9
   \<and> sum_list (map durationYears (mahadashas birth g span_remaining span_total)) = 120
   \<and> partitions (mahadashas birth g span_remaining span_total)
        (birth + balance_of_first_dasha g span_remaining span_total - dasha_years g)
        (birth + balance_of_first_dasha g span_remaining span_total - dasha_years g + 120)
   \<and> endDate (hd (mahadashas birth g span_remaining span_total))
        = birth + balance_of_first_dasha g span_remaining span_total
   \<and> (\<forall>m\<in>set (mahadashas birth g span_remaining span_total).
        partitions (antardashas m) (startDate m) (endDate m)
        \<and> \<bar>sum_list (map durationYears (antardashas m)) - durationYears m\<bar> \<le> 1 / 1000000
        \<and> (\<forall>a\<in>set (antardashas m). startDate m \<le> startDate a \<and> endDate a \<le> endDate m))"
proof -
  have n: "length (mahadashas birth g span_remaining span_total) = 9"
    by (simp add: mahadashas_def lay_out_length cycle_from_length)
  have s: "sum_list (map durationYears (mahadashas birth g span_remaining span_total)) = 120"
    unfolding mahadashas_def lay_out_durations by (rule mahadasha_catalog)
  have ne: "map (\<lambda>h. (h, dasha_years h)) (cycle_from g) \<noteq> []"
    using cycle_from_nonempty by simp
  have p: "partitions (mahadashas birth g span_remaining span_total)
        (birth + balance_of_first_dasha g span_remaining span_total - dasha_years g)
        (birth + balance_of_first_dasha g span_remaining span_total - dasha_years g + 120)"
    using lay_out_partitions [OF ne mahadasha_catalog_positive]
    unfolding mahadashas_def mahadasha_catalog .
  have e: "endDate (hd (mahadashas birth g span_remaining span_total))
        = birth + balance_of_first_dasha g span_remaining span_total"
    by (simp add: mahadashas_def cycle_from_def eval_nat_numeral)
  from n s p e mahadashas_antardashas [of _ birth g span_remaining span_total]
  show ?thesis by blast
qed

lemma mahadashas_1990:
  "map lord (mahadashas 1990 Moon 1 4) =
     [Moon, Mars, Rahu, Jupiter, Saturn, Mercury, Ketu, Venus, Sun]"
  by (simp add: mahadashas_def cycle_from_def eval_nat_numeral balance_of_first_dasha_def)

theorem C6_dasha_periods_partition_witness:
  "sum_list (map durationYears (mahadashas 1990 Moon 1 4)) = 120
   \<and> map lord (mahadashas 1990 Moon 1 4) =
       [Moon, Mars, Rahu, Jupiter, Saturn, Mercury, Ketu, Venus, Sun]
   \<and> startDate (hd (mahadashas 1990 Moon 1 4)) = 3965 / 2
   \<and> endDate (hd (mahadashas 1990 Moon 1 4)) = 3985 / 2
   \<and> endDate (last (mahadashas 1990 Moon 1 4)) = 4205 / 2
   \<and> partitions (antardashas (hd (mahadashas 1990 Moon 1 4))) (3965 / 2) (3985 / 2)"
proof -
  note c = C6_dasha_periods_partition [of 1990 Moon 1 4]
  have b: "balance_of_first_dasha Moon 1 4 = 5 / 2" by (simp add: balance_of_first_dasha_def)
  from c have s: "sum_list (map durationYears (mahadashas 1990 Moon 1 4)) = 120" by blast
  from c have "length (mahadashas 1990 Moon 1 4) = 9" by blast
  then have ne: "mahadashas 1990 Moon 1 4 \<noteq> []" by auto
  then have h: "hd (mahadashas 1990 Moon 1 4) \<in> set (mahadashas 1990 Moon 1 4)" by simp
  from c have "partitions (mahadashas 1990 Moon 1 4)
      (1990 + balance_of_first_dasha Moon 1 4 - dasha_years Moon)
      (1990 + balance_of_first_dasha Moon 1 4 - dasha_years Moon + 120)" by blast
  then have se: "startDate (hd (mahadashas 1990 Moon 1 4)) = 3965 / 2"
    "endDate (last (mahadashas 1990 Moon 1 4)) = 4205 / 2"
    by (simp_all add: partitions_def b)
  from c have "endDate (hd (mahadashas 1990 Moon 1 4)) = 1990 + balance_of_first_dasha Moon 1 4"
    by blast
  then have e: "endDate (hd (mahadashas 1990 Moon 1 4)) = 3985 / 2" by (simp add: b)
  from c h have "partitions (antardashas (hd (mahadashas 1990 Moon 1 4)))
      (startDate (hd (mahadashas 1990 Moon 1 4))) (endDate (hd (mahadashas 1990 Moon 1 4)))"
    by blast
  then have a: "partitions (antardashas (hd (mahadashas 1990 Moon 1 4))) (3965 / 2) (3985 / 2)"
    by (simp only: se(1) e)
  from s mahadashas_1990 se e a show ?thesis by blast
qed

end
